theory Spec2Isabelle
  imports Main "HOL-Library.Sublist"
begin

section \<open>The worker of goworker (worker.go)\<close>

text \<open>
  A shallow embedding of \<^verbatim>\<open>worker.go\<close>. Every method of \<^verbatim>\<open>*worker\<close> becomes a
  function that takes the program state and returns the new one. What the file reads
  from the rest of the package (the namespace setting, the registry of work functions,
  the connection pool, the clock, the JSON encoder and the methods of the embedded
  \<^verbatim>\<open>process\<close>) is collected in an environment record.
\<close>

subsection \<open>Errors\<close>

text \<open>
  A Go \<^verbatim>\<open>error\<close> value is either a \<^verbatim>\<open>*WorkerError\<close> (fields \<^verbatim>\<open>message\<close> and
  \<^verbatim>\<open>Backtrace\<close>, in this order) or any other error, kept by the text its
  \<^verbatim>\<open>Error()\<close> method returns. A nil error is \<open>None\<close> of \<open>error option\<close>.
\<close>

datatype error = WorkerError string "string list" | errorString string

definition NewWorkerError :: "string \<Rightarrow> string list \<Rightarrow> error" where
  "NewWorkerError message backtrace = WorkerError message backtrace"

fun Error_of :: "error \<Rightarrow> string" where
  "Error_of (WorkerError message backtrace) = message"
| "Error_of (errorString s) = s"

definition errors_New :: "string \<Rightarrow> error" where
  "errors_New text = errorString text"

subsection \<open>Data\<close>

text \<open>
  Modelled from the spec: \<^verbatim>\<open>process\<close> and its \<^verbatim>\<open>String()\<close> method (process.go).
  The worker identity is an opaque string, unique per worker and immutable; it is what
  \<^verbatim>\<open>String()\<close> returns.
\<close>

record process =
  identity :: string

definition process_String :: "process \<Rightarrow> string" where
  "process_String p = identity p"

record worker =
  process :: process

text \<open>
  \<^verbatim>\<open>worker\<close> embeds \<^verbatim>\<open>process\<close>, so \<^verbatim>\<open>String()\<close> is promoted to \<^verbatim>\<open>*worker\<close>: formatting
  a \<^verbatim>\<open>*worker\<close> with \<^verbatim>\<open>%s\<close> or \<^verbatim>\<open>%v\<close> calls it.
\<close>

definition worker_String :: "worker \<Rightarrow> string" where
  "worker_String w = process_String (process w)"

text \<open>
  \<^verbatim>\<open>Job\<close> and \<^verbatim>\<open>Payload\<close> as worker.go uses them; the arguments are opaque values of
  type \<open>'a\<close>.
\<close>

record 'a Payload =
  Class :: string
  Args :: "'a list"

record 'a Job =
  Queue :: string
  Payload :: "'a Payload"

text \<open>The records built by \<^verbatim>\<open>start\<close> and \<^verbatim>\<open>fail\<close>, with the fields of their literals.\<close>

record 'a work =
  Queue :: string
  RunAt :: int
  Payload :: "'a Payload"

record 'a failure =
  FailedAt :: int
  Payload :: "'a Payload"
  Exception :: string
  Error :: string
  Backtrace :: "string list"
  Worker :: worker
  Queue :: string

subsection \<open>Work functions\<close>

text \<open>
  A call of a work function either returns an error value (possibly nil) or panics.
  \<open>Panics r stack\<close>: the recovered value renders as \<open>r\<close> under \<^verbatim>\<open>fmt.Sprint\<close>, and
  \<^verbatim>\<open>debug.Stack()\<close> returns \<open>stack\<close> in the recovering closure. A call that never
  returns is outside the model.
\<close>

datatype outcome = Returns "error option" | Panics string string

type_synonym 'a workerFunc = "string \<Rightarrow> 'a list \<Rightarrow> outcome"

subsection \<open>Program state\<close>

type_synonym command = "string \<times> string list"

type_synonym RedisConn = nat

text \<open>
  The part of the state a connection acts on: the commands buffered on each connection,
  and the batches delivered to the store so far, one batch per flush.
\<close>

type_synonym redis = "(RedisConn \<Rightarrow> command list) \<times> command list list"

datatype level = Critical | Debug

text \<open>
  \<open>gets\<close> counts the calls of \<^verbatim>\<open>GetConn\<close> and \<open>ticks\<close> those of \<^verbatim>\<open>time.Now\<close>;
  \<open>monitor\<close> is the counter of the wait group. \<open>invocations\<close> is a ghost field: the
  number of calls of work functions made so far.
\<close>

record state =
  bufs :: "RedisConn \<Rightarrow> command list"
  wire :: "command list list"
  logged :: "(level \<times> string) list"
  gets :: nat
  ticks :: nat
  monitor :: int
  invocations :: nat

text \<open>
  The environment. \<open>pool\<close> gives the outcome of the \<open>n\<close>-th call of \<^verbatim>\<open>GetConn\<close>,
  \<open>clock\<close> the value of the \<open>n\<close>-th reading of the time. \<open>fmt_time\<close> and \<open>fmt_args\<close>
  render a time under \<^verbatim>\<open>%s\<close> and an argument slice under \<^verbatim>\<open>%v\<close>. The methods
  \<^verbatim>\<open>open\<close>, \<^verbatim>\<open>close\<close> and \<^verbatim>\<open>fail\<close> of \<^verbatim>\<open>process\<close> are not in worker.go: they are
  parameters, acting on the connection they are given and on the store behind it.
\<close>

record 'a env =
  Namespace :: string
  workers :: "string \<rightharpoonup> 'a workerFunc"
  pool :: "nat \<Rightarrow> error + RedisConn"
  clock :: "nat \<Rightarrow> int"
  json_Marshal_work :: "'a work \<Rightarrow> error + string"
  json_Marshal_failure :: "'a failure \<Rightarrow> error + string"
  fmt_time :: "int \<Rightarrow> string"
  fmt_args :: "'a list \<Rightarrow> string"
  process_open :: "process \<Rightarrow> RedisConn \<Rightarrow> redis \<Rightarrow> error option \<times> redis"
  process_close :: "process \<Rightarrow> RedisConn \<Rightarrow> redis \<Rightarrow> error option \<times> redis"
  process_fail :: "process \<Rightarrow> RedisConn \<Rightarrow> redis \<Rightarrow> error option \<times> redis"

subsection \<open>Collaborators\<close>

text \<open>
  Modelled from the spec: \<^verbatim>\<open>Send\<close> and \<^verbatim>\<open>Flush\<close> of \<^verbatim>\<open>RedisConn\<close> (redis.go). A
  connection supports buffered command pipelining and an explicit flush: \<^verbatim>\<open>Send\<close> appends
  a command to the buffer of the connection, \<^verbatim>\<open>Flush\<close> delivers the buffer to the store
  as one batch and empties it. Transport faults are outside the model: \<^verbatim>\<open>Flush\<close> returns
  nil.
\<close>

definition Send :: "RedisConn \<Rightarrow> string \<Rightarrow> string list \<Rightarrow> state \<Rightarrow> state" where
  "Send conn commandName args s = s\<lparr>bufs := (bufs s)(conn := bufs s conn @ [(commandName, args)])\<rparr>"

definition Flush :: "RedisConn \<Rightarrow> state \<Rightarrow> error option \<times> state" where
  "Flush conn s = (None, s\<lparr>wire := wire s @ [bufs s conn], bufs := (bufs s)(conn := [])\<rparr>)"

text \<open>
  Modelled from the spec: \<^verbatim>\<open>GetConn\<close> and \<^verbatim>\<open>PutConn\<close> of the connection pool.
  \<^verbatim>\<open>acquire() -> (Connection, error)\<close>, where an error means that the store is
  unreachable, and \<^verbatim>\<open>release(Connection)\<close>.
\<close>

definition GetConn :: "'a env \<Rightarrow> state \<Rightarrow> (error + RedisConn) \<times> state" where
  "GetConn env s = (pool env (gets s), s\<lparr>gets := Suc (gets s)\<rparr>)"

definition PutConn :: "RedisConn \<Rightarrow> state \<Rightarrow> state" where
  "PutConn conn s = s"

definition time_Now :: "'a env \<Rightarrow> state \<Rightarrow> int \<times> state" where
  "time_Now env s = (clock env (ticks s), s\<lparr>ticks := Suc (ticks s)\<rparr>)"

definition logger_log :: "level \<Rightarrow> string \<Rightarrow> state \<Rightarrow> state" where
  "logger_log l msg s = s\<lparr>logged := logged s @ [(l, msg)]\<rparr>"

text \<open>A method of \<^verbatim>\<open>process\<close>, run on the connection part of the state.\<close>

definition on_redis :: "(redis \<Rightarrow> error option \<times> redis) \<Rightarrow> state \<Rightarrow> error option \<times> state" where
  "on_redis m s =
     (case m (bufs s, wire s) of (r, (b, d)) \<Rightarrow> (r, s\<lparr>bufs := b, wire := d\<rparr>))"

text \<open>
  \<^verbatim>\<open>strings.Split(s, sep)\<close> for a separator of one character: the pieces of \<open>s\<close> between
  the occurrences of \<open>sep\<close>, so that a string with \<open>n\<close> separators gives \<open>n + 1\<close> pieces
  and the empty string gives one empty piece. The second branch of the \<open>case\<close> is never
  taken.
\<close>

fun strings_Split :: "string \<Rightarrow> char \<Rightarrow> string list" where
  "strings_Split [] sep = [[]]"
| "strings_Split (c # cs) sep =
     (if c = sep then [] # strings_Split cs sep
      else (case strings_Split cs sep of
              [] \<Rightarrow> [[c]]
            | l # ls \<Rightarrow> (c # l) # ls))"

subsection \<open>The status reports\<close>

definition start :: "'a env \<Rightarrow> worker \<Rightarrow> RedisConn \<Rightarrow> 'a Job \<Rightarrow> state \<Rightarrow> error option \<times> state" where
  "start env w conn job s =
     (let (now, s1) = time_Now env s;
          work = \<lparr>work.Queue = Job.Queue job, RunAt = now, work.Payload = Job.Payload job\<rparr>
      in (case json_Marshal_work env work of
            Inl err \<Rightarrow> (Some err, s1)
          | Inr buffer \<Rightarrow>
              (let s2 = Send conn ''SET''
                          [Namespace env @ ''worker:'' @ worker_String w, buffer] s1;
                   s3 = logger_log Debug
                          (''Processing '' @ work.Queue work @ '' since ''
                             @ fmt_time env (RunAt work)
                             @ '' ['' @ Class (work.Payload work) @ '']'') s2
               in Flush conn s3)))"

definition fail :: "'a env \<Rightarrow> worker \<Rightarrow> RedisConn \<Rightarrow> 'a Job \<Rightarrow> error \<Rightarrow> state \<Rightarrow> error option \<times> state" where
  "fail env w conn job err s =
     (let backtrace = (case err of WorkerError message bt \<Rightarrow> bt | errorString x \<Rightarrow> []);
          (now, s1) = time_Now env s;
          failure = \<lparr>FailedAt = now, failure.Payload = Job.Payload job,
                      Exception = ''Error'', Error = Error_of err, Backtrace = backtrace,
                      Worker = w, failure.Queue = Job.Queue job\<rparr>
      in (case json_Marshal_failure env failure of
            Inl err' \<Rightarrow> (Some err', s1)
          | Inr buffer \<Rightarrow>
              (let s2 = Send conn ''RPUSH'' [Namespace env @ ''failed'', buffer] s1
               in on_redis (process_fail env (process w) conn) s2)))"

definition succeed :: "'a env \<Rightarrow> worker \<Rightarrow> RedisConn \<Rightarrow> 'a Job \<Rightarrow> state \<Rightarrow> error option \<times> state" where
  "succeed env w conn job s =
     (let s1 = Send conn ''INCR'' [Namespace env @ ''stat:processed''] s;
          s2 = Send conn ''INCR'' [Namespace env @ ''stat:processed:'' @ worker_String w] s1
      in (None, s2))"

definition finish :: "'a env \<Rightarrow> worker \<Rightarrow> RedisConn \<Rightarrow> 'a Job \<Rightarrow> error option \<Rightarrow> state \<Rightarrow> error option \<times> state" where
  "finish env w conn job err s =
     (let s1 = (case err of
                  Some e \<Rightarrow> snd (fail env w conn job e s)
                | None \<Rightarrow> snd (succeed env w conn job s));
          s2 = Send conn ''DEL'' [Namespace env @ ''worker:'' @ process_String (process w)] s1
      in Flush conn s2)"

subsection \<open>The execution engine\<close>

text \<open>
  The closure that \<^verbatim>\<open>run\<close> defers first, and that therefore runs last (lines 140 to
  149): it reads \<^verbatim>\<open>err\<close> as it is when \<^verbatim>\<open>run\<close> leaves.
\<close>

definition run_deferred :: "'a env \<Rightarrow> worker \<Rightarrow> 'a Job \<Rightarrow> error option \<Rightarrow> state \<Rightarrow> state" where
  "run_deferred env w job err s =
     (case GetConn env s of
        (Inl errCon, s1) \<Rightarrow>
          logger_log Critical
            (''Error on getting connection in worker on finish '' @ worker_String w
               @ '': '' @ Error_of errCon) s1
      | (Inr conn, s1) \<Rightarrow> PutConn conn (snd (finish env w conn job err s1)))"

text \<open>
  \<^verbatim>\<open>run\<close>. The variable \<^verbatim>\<open>err\<close> is declared once, at the top of the function body; the
  short declaration \<^verbatim>\<open>conn, err := GetConn()\<close> stands in the same block and assigns to
  it. The second deferred closure turns a panic of the work function into a
  \<^verbatim>\<open>*WorkerError\<close>; it runs before the first one.
\<close>

definition run :: "'a env \<Rightarrow> worker \<Rightarrow> 'a Job \<Rightarrow> 'a workerFunc \<Rightarrow> state \<Rightarrow> state" where
  "run env w job workerFunc s =
     (let (err, s') =
            (case GetConn env s of
               (Inl err, s1) \<Rightarrow>
                 (Some err,
                  logger_log Critical
                    (''Error on getting connection in worker on start '' @ worker_String w
                       @ '': '' @ Error_of err) s1)
             | (Inr conn, s1) \<Rightarrow>
                 (let s2 = PutConn conn (snd (start env w conn job s1));
                      s3 = s2\<lparr>invocations := Suc (invocations s2)\<rparr>
                  in (case workerFunc (Job.Queue job) (Args (Job.Payload job)) of
                        Returns err \<Rightarrow> (err, s3)
                      | Panics r stack \<Rightarrow>
                          (let stackTrace = strings_Split stack (CHR 0x0A)
                           in (Some (NewWorkerError r stackTrace), s3)))))
      in run_deferred env w job err s')"

subsection \<open>The worker loop\<close>

text \<open>
  The jobs are those delivered on the channel before it is closed, in order. The loop
  ends when the channel is closed and empty (\<open>ChannelClosed\<close>) or by the
  \<^verbatim>\<open>return\<close> of line 128 (\<open>Returned\<close>, with the jobs it leaves on the channel).
  \<open>NotStarted\<close>: \<^verbatim>\<open>work\<close> returned at line 95, before the loop.
\<close>

datatype 'a exit = NotStarted | ChannelClosed | Returned "'a Job list"

fun drain :: "'a env \<Rightarrow> worker \<Rightarrow> 'a Job list \<Rightarrow> state \<Rightarrow> 'a exit \<times> state" where
  "drain env w [] s = (ChannelClosed, s)"
| "drain env w (job # jobs) s =
     (case workers env (Class (Job.Payload job)) of
        Some workerFunc \<Rightarrow>
          (let s1 = run env w job workerFunc s;
               s2 = logger_log Debug
                      (''done: (Job{'' @ Job.Queue job @ ''} | '' @ Class (Job.Payload job)
                         @ '' | '' @ fmt_args env (Args (Job.Payload job)) @ '')'') s1
           in drain env w jobs s2)
      | None \<Rightarrow>
          (let errorLog = ''No worker for '' @ Class (Job.Payload job) @ '' in queue ''
                            @ Job.Queue job @ '' with args ''
                            @ fmt_args env (Args (Job.Payload job));
               s1 = logger_log Critical errorLog s
           in (case GetConn env s1 of
                 (Inl err, s2) \<Rightarrow>
                   (Returned jobs,
                    logger_log Critical
                      (''Error on getting connection in worker '' @ worker_String w
                         @ '': '' @ Error_of err) s2)
               | (Inr conn, s2) \<Rightarrow>
                   drain env w jobs
                     (PutConn conn
                        (snd (finish env w conn job (Some (errors_New errorLog)) s2))))))"

text \<open>
  \<^verbatim>\<open>work\<close>. The goroutine is run to its end on the jobs of the channel; its deferred
  closure announces the shutdown and marks the wait group done.
\<close>

definition work :: "'a env \<Rightarrow> worker \<Rightarrow> 'a Job list \<Rightarrow> state \<Rightarrow> 'a exit \<times> state" where
  "work env w jobs s =
     (case GetConn env s of
        (Inl err, s1) \<Rightarrow>
          (NotStarted,
           logger_log Critical
             (''Error on getting connection in worker '' @ worker_String w
                @ '': '' @ Error_of err) s1)
      | (Inr conn, s1) \<Rightarrow>
          (let s2 = PutConn conn (snd (on_redis (process_open env (process w) conn) s1));
               s3 = s2\<lparr>monitor := monitor s2 + 1\<rparr>;
               (e, s4) = drain env w jobs s3;
               s5 = (case GetConn env s4 of
                       (Inl err, t) \<Rightarrow>
                         logger_log Critical
                           (''Error on getting connection in worker '' @ worker_String w
                              @ '': '' @ Error_of err) t
                     | (Inr conn', t) \<Rightarrow>
                         PutConn conn'
                           (snd (on_redis (process_close env (process w) conn') t)));
               s6 = s5\<lparr>monitor := monitor s5 - 1\<rparr>
           in (e, s6)))"

subsection \<open>The store\<close>

text \<open>
  Modelled from the spec: the store behind the connections, a key/value and list store
  with the four commands of the wire contract. \<^verbatim>\<open>SET\<close> writes a string, \<^verbatim>\<open>DEL\<close> removes
  a key, \<^verbatim>\<open>INCR\<close> adds one to an integer counter (an absent key counts as zero),
  \<^verbatim>\<open>RPUSH\<close> appends to a list (an absent key is the empty list). A command on a value of
  the wrong kind, and any other command, leaves the store as it is.
\<close>

datatype rvalue = RStr string | RInt int | RList "string list"

type_synonym store = "string \<rightharpoonup> rvalue"

definition exec :: "store \<Rightarrow> command \<Rightarrow> store" where
  "exec st cmd =
     (case cmd of (name, args) \<Rightarrow>
        if name = ''SET'' then
          (case args of [k, v] \<Rightarrow> st(k \<mapsto> RStr v) | _ \<Rightarrow> st)
        else if name = ''DEL'' then
          (case args of [k] \<Rightarrow> st(k := None) | _ \<Rightarrow> st)
        else if name = ''INCR'' then
          (case args of
             [k] \<Rightarrow> (case st k of
                        None \<Rightarrow> st(k \<mapsto> RInt 1)
                      | Some (RInt n) \<Rightarrow> st(k \<mapsto> RInt (n + 1))
                      | Some _ \<Rightarrow> st)
           | _ \<Rightarrow> st)
        else if name = ''RPUSH'' then
          (case args of
             [k, v] \<Rightarrow> (case st k of
                           None \<Rightarrow> st(k \<mapsto> RList [v])
                         | Some (RList xs) \<Rightarrow> st(k \<mapsto> RList (xs @ [v]))
                         | Some _ \<Rightarrow> st)
           | _ \<Rightarrow> st)
        else st)"

text \<open>The store once the given batches have been delivered, in order.\<close>

definition deliver :: "store \<Rightarrow> command list list \<Rightarrow> store" where
  "deliver st batches = foldl exec st (concat batches)"

text \<open>The value of a counter: zero when the key is absent, none when it is no counter.\<close>

definition counter :: "store \<Rightarrow> string \<Rightarrow> int option" where
  "counter st k =
     (case st k of None \<Rightarrow> Some 0 | Some (RInt n) \<Rightarrow> Some n | Some _ \<Rightarrow> None)"

subsection \<open>Shorthands\<close>

text \<open>
  The heartbeat key of a worker, and the records that \<^verbatim>\<open>fail\<close> and \<^verbatim>\<open>start\<close> hand to the
  encoder in a given state.
\<close>

abbreviation heartbeat_key :: "'a env \<Rightarrow> worker \<Rightarrow> string" where
  "heartbeat_key env w \<equiv> Namespace env @ ''worker:'' @ identity (process w)"

abbreviation failure_record :: "'a env \<Rightarrow> worker \<Rightarrow> 'a Job \<Rightarrow> error \<Rightarrow> state \<Rightarrow> 'a failure" where
  "failure_record env w job err s \<equiv>
     \<lparr>FailedAt = clock env (ticks s), failure.Payload = Job.Payload job,
      Exception = ''Error'', Error = Error_of err,
      Backtrace = (case err of WorkerError m bt \<Rightarrow> bt | errorString x \<Rightarrow> []),
      Worker = w, failure.Queue = Job.Queue job\<rparr>"

abbreviation work_record :: "'a env \<Rightarrow> 'a Job \<Rightarrow> state \<Rightarrow> 'a work" where
  "work_record env job s \<equiv>
     \<lparr>work.Queue = Job.Queue job, RunAt = clock env (ticks s), work.Payload = Job.Payload job\<rparr>"

text \<open>The texts of the two critical log lines of \<^verbatim>\<open>run\<close>.\<close>

abbreviation start_failed_text :: "worker \<Rightarrow> error \<Rightarrow> string" where
  "start_failed_text w e \<equiv>
     ''Error on getting connection in worker on start '' @ identity (process w) @ '': '' @ Error_of e"

abbreviation finish_failed_text :: "worker \<Rightarrow> error \<Rightarrow> string" where
  "finish_failed_text w e \<equiv>
     ''Error on getting connection in worker on finish '' @ identity (process w) @ '': '' @ Error_of e"

text \<open>The texts of the two log lines of the loop.\<close>

abbreviation no_worker_text :: "'a env \<Rightarrow> 'a Job \<Rightarrow> string" where
  "no_worker_text env job \<equiv>
     ''No worker for '' @ Class (Job.Payload job) @ '' in queue '' @ Job.Queue job
       @ '' with args '' @ fmt_args env (Args (Job.Payload job))"

abbreviation done_text :: "'a env \<Rightarrow> 'a Job \<Rightarrow> string" where
  "done_text env job \<equiv>
     ''done: (Job{'' @ Job.Queue job @ ''} | '' @ Class (Job.Payload job)
       @ '' | '' @ fmt_args env (Args (Job.Payload job)) @ '')''"

text \<open>
  The records that a sequence of commands appends to the failure list \<^verbatim>\<open><ns>failed\<close>, in
  order.
\<close>

definition failures :: "'a env \<Rightarrow> command list \<Rightarrow> string list" where
  "failures env cmds =
     concat (map (\<lambda>cmd. case cmd of
                     (name, [k, v]) \<Rightarrow>
                       if name = ''RPUSH'' \<and> k = Namespace env @ ''failed'' then [v] else []
                   | _ \<Rightarrow> []) cmds)"

subsection \<open>Sample inputs\<close>

text \<open>
  A worker \<open>w1\<close> in the namespace \<open>resque:\<close>, a job for the work type \<open>Echo\<close> on the
  queue \<open>default\<close>, and an environment over a given pool and registry. Its encoders
  keep one field of the record they are given; its \<^verbatim>\<open>process\<close> methods send nothing.
\<close>

definition sample_env :: "(nat \<Rightarrow> error + RedisConn) \<Rightarrow> (string \<rightharpoonup> string workerFunc) \<Rightarrow> string env" where
  "sample_env pl reg =
     \<lparr>Namespace = ''resque:'', workers = reg, pool = pl, clock = (\<lambda>n. int n),
      json_Marshal_work = (\<lambda>r. Inr (Class (work.Payload r))),
      json_Marshal_failure = (\<lambda>r. Inr (Error r)),
      fmt_time = (\<lambda>t. ''now''), fmt_args = concat,
      process_open = (\<lambda>p c r. (None, r)), process_close = (\<lambda>p c r. (None, r)),
      process_fail = (\<lambda>p c r. (None, r))\<rparr>"

definition sample_worker :: worker where
  "sample_worker = \<lparr>process = \<lparr>identity = ''w1''\<rparr>\<rparr>"

definition sample_job :: "string Job" where
  "sample_job = \<lparr>Job.Queue = ''default'', Job.Payload = \<lparr>Class = ''Echo'', Args = [''hi'']\<rparr>\<rparr>"

definition other_job :: "string Job" where
  "other_job = \<lparr>Job.Queue = ''mail'', Job.Payload = \<lparr>Class = ''Send'', Args = []\<rparr>\<rparr>"

definition idle :: state where
  "idle = \<lparr>bufs = (\<lambda>c. []), wire = [], logged = [], gets = 0, ticks = 0, monitor = 0,
           invocations = 0\<rparr>"

definition always :: "nat \<Rightarrow> error + RedisConn" where
  "always n = Inr 0"

definition never :: "nat \<Rightarrow> error + RedisConn" where
  "never n = Inl (errorString ''pool exhausted'')"

definition only_first :: "nat \<Rightarrow> error + RedisConn" where
  "only_first n = (if n = 0 then Inr 0 else Inl (errorString ''pool exhausted''))"

definition all_but_first :: "nat \<Rightarrow> error + RedisConn" where
  "all_but_first n = (if n = 0 then Inl (errorString ''pool exhausted'') else Inr 0)"

definition echo :: "string workerFunc" where
  "echo queue args = Returns None"

definition crash :: "string workerFunc" where
  "crash queue args = Panics ''boom'' (''goroutine 1'' @ [CHR 0x0A] @ ''main.crash()'')"

text \<open>The same environment with encoders that refuse every record.\<close>

definition mute_env :: "(nat \<Rightarrow> error + RedisConn) \<Rightarrow> (string \<rightharpoonup> string workerFunc) \<Rightarrow> string env" where
  "mute_env pl reg =
     (sample_env pl reg)\<lparr>json_Marshal_work := (\<lambda>r. Inl (errorString ''json: unsupported value'')),
                          json_Marshal_failure := (\<lambda>r. Inl (errorString ''json: unsupported value''))\<rparr>"

section \<open>Properties\<close>

subsection \<open>Auxiliary facts\<close>

lemma succeed_eq:
  "succeed env w conn job s =
     (None, s\<lparr>bufs := (bufs s)(conn := bufs s conn @
        [(''INCR'', [Namespace env @ ''stat:processed'']),
         (''INCR'', [Namespace env @ ''stat:processed:'' @ identity (process w)])])\<rparr>)"
  by (simp add: succeed_def Send_def worker_String_def process_String_def)

lemma finish_eq:
  "finish env w conn job err s =
     (let s1 = (case err of Some e \<Rightarrow> snd (fail env w conn job e s)
                          | None \<Rightarrow> snd (succeed env w conn job s))
      in (None, s1\<lparr>wire := wire s1 @ [bufs s1 conn @
                      [(''DEL'', [Namespace env @ ''worker:'' @ identity (process w)])]],
                   bufs := (bufs s1)(conn := [])\<rparr>))"
  by (simp add: finish_def Send_def Flush_def process_String_def Let_def)

lemma finish_nil:
  "finish env w conn job None s =
     (None, s\<lparr>wire := wire s @ [bufs s conn @
        [(''INCR'', [Namespace env @ ''stat:processed'']),
         (''INCR'', [Namespace env @ ''stat:processed:'' @ identity (process w)]),
         (''DEL'', [Namespace env @ ''worker:'' @ identity (process w)])]],
        bufs := (bufs s)(conn := [])\<rparr>)"
  by (simp add: finish_eq succeed_eq)

lemma strings_Split_nonempty: "strings_Split s sep \<noteq> []"
  by (induction s) (auto split: list.splits)

lemma fail_marshalled:
  assumes "json_Marshal_failure env (failure_record env w job err s) = Inr buffer"
  shows "fail env w conn job err s =
           on_redis (process_fail env (process w) conn)
             (s\<lparr>ticks := Suc (ticks s),
                bufs := (bufs s)(conn := bufs s conn @
                          [(''RPUSH'', [Namespace env @ ''failed'', buffer])])\<rparr>)"
  using assms by (simp add: fail_def time_Now_def Send_def Let_def)

lemma fail_unmarshalled:
  assumes "json_Marshal_failure env (failure_record env w job err s) = Inl e"
  shows "fail env w conn job err s = (Some e, s\<lparr>ticks := Suc (ticks s)\<rparr>)"
  using assms by (simp add: fail_def time_Now_def Send_def Let_def)

lemma start_marshalled:
  assumes "json_Marshal_work env (work_record env job s) = Inr buffer"
  shows "start env w conn job s =
           (None, s\<lparr>ticks := Suc (ticks s),
                    logged := logged s @ [(Debug, ''Processing '' @ Job.Queue job @ '' since ''
                               @ fmt_time env (clock env (ticks s)) @ '' [''
                               @ Class (Job.Payload job) @ '']'')],
                    wire := wire s @ [bufs s conn @
                              [(''SET'', [heartbeat_key env w, buffer])]],
                    bufs := (bufs s)(conn := [])\<rparr>)"
  using assms by (simp add: start_def time_Now_def Send_def Flush_def logger_log_def Let_def worker_String_def process_String_def)

lemma start_unmarshalled:
  assumes "json_Marshal_work env (work_record env job s) = Inl e"
  shows "start env w conn job s = (Some e, s\<lparr>ticks := Suc (ticks s)\<rparr>)"
  using assms by (simp add: start_def time_Now_def Let_def)

lemma exec_INCR:
  "exec st (''INCR'', [k]) =
     (case st k of None \<Rightarrow> st(k \<mapsto> RInt 1) | Some (RInt n) \<Rightarrow> st(k \<mapsto> RInt (n + 1)) | Some _ \<Rightarrow> st)"
  by (simp add: exec_def)

lemma exec_DEL: "exec st (''DEL'', [k]) = st(k := None)"
  by (simp add: exec_def)

lemma counter_INCR_same: "counter st k = Some n \<Longrightarrow> counter (exec st (''INCR'', [k])) k = Some (n + 1)"
  by (auto simp: exec_INCR counter_def split: option.splits rvalue.splits)

lemma counter_INCR_other: "k \<noteq> k' \<Longrightarrow> counter (exec st (''INCR'', [k'])) k = counter st k"
  by (auto simp: exec_INCR counter_def split: option.splits rvalue.splits)

lemma counter_DEL_other: "k \<noteq> k' \<Longrightarrow> counter (exec st (''DEL'', [k'])) k = counter st k"
  by (simp add: exec_DEL counter_def)

lemma deliver_snoc: "deliver st (batches @ [b @ cs]) = foldl exec (deliver st (batches @ [b])) cs"
  by (simp add: deliver_def)

lemma processed_batch:
  assumes "k1 \<noteq> k2" "hb \<noteq> k1" "hb \<noteq> k2"
      and "counter st k1 = Some n" "counter st k2 = Some m"
  shows "counter (foldl exec st [(''INCR'', [k1]), (''INCR'', [k2]), (''DEL'', [hb])]) k1 = Some (n + 1)"
    and "counter (foldl exec st [(''INCR'', [k1]), (''INCR'', [k2]), (''DEL'', [hb])]) k2 = Some (m + 1)"
    and "foldl exec st [(''INCR'', [k1]), (''INCR'', [k2]), (''DEL'', [hb])] hb = None"
proof -
  have 1: "counter (exec st (''INCR'', [k1])) k1 = Some (n + 1)"
    using assms(4) by (rule counter_INCR_same)
  have 2: "counter (exec st (''INCR'', [k1])) k2 = Some m"
    using assms(1,5) by (simp add: counter_INCR_other)
  have 3: "counter (exec (exec st (''INCR'', [k1])) (''INCR'', [k2])) k1 = Some (n + 1)"
    using assms(1) 1 by (simp add: counter_INCR_other)
  have 4: "counter (exec (exec st (''INCR'', [k1])) (''INCR'', [k2])) k2 = Some (m + 1)"
    using 2 by (rule counter_INCR_same)
  show "counter (foldl exec st [(''INCR'', [k1]), (''INCR'', [k2]), (''DEL'', [hb])]) k1 = Some (n + 1)"
    using 3 assms(2) by (simp add: counter_DEL_other)
  show "counter (foldl exec st [(''INCR'', [k1]), (''INCR'', [k2]), (''DEL'', [hb])]) k2 = Some (m + 1)"
    using 4 assms(3) by (simp add: counter_DEL_other)
  show "foldl exec st [(''INCR'', [k1]), (''INCR'', [k2]), (''DEL'', [hb])] hb = None"
    by (simp add: exec_DEL)
qed

lemma on_redis_frame:
  "gets (snd (on_redis m s)) = gets s"
  "invocations (snd (on_redis m s)) = invocations s"
  "logged (snd (on_redis m s)) = logged s"
  "ticks (snd (on_redis m s)) = ticks s"
  "monitor (snd (on_redis m s)) = monitor s"
  by (simp_all add: on_redis_def split: prod.splits)

lemma start_frame:
  "gets (snd (start env w conn job s)) = gets s"
  "invocations (snd (start env w conn job s)) = invocations s"
  by (simp_all add: start_def time_Now_def Send_def Flush_def logger_log_def Let_def split: sum.splits)

lemma fail_frame:
  "gets (snd (fail env w conn job err s)) = gets s"
  "invocations (snd (fail env w conn job err s)) = invocations s"
  "logged (snd (fail env w conn job err s)) = logged s"
  by (simp_all add: fail_def time_Now_def Send_def Let_def on_redis_frame split: sum.splits)

lemma finish_frame:
  "gets (snd (finish env w conn job err s)) = gets s"
  "invocations (snd (finish env w conn job err s)) = invocations s"
  "logged (snd (finish env w conn job err s)) = logged s"
  by (simp_all add: finish_eq Let_def fail_frame succeed_eq split: option.splits)

lemma run_deferred_unavailable:
  assumes "pool env (gets s) = Inl e"
  shows "run_deferred env w job err s =
           s\<lparr>gets := Suc (gets s),
              logged := logged s @ [(Critical, ''Error on getting connection in worker on finish ''
                                        @ identity (process w) @ '': '' @ Error_of e)]\<rparr>"
  using assms by (simp add: run_deferred_def GetConn_def logger_log_def worker_String_def process_String_def)

lemma run_deferred_available:
  assumes "pool env (gets s) = Inr c"
  shows "run_deferred env w job err s = snd (finish env w c job err (s\<lparr>gets := Suc (gets s)\<rparr>))"
  using assms by (simp add: run_deferred_def GetConn_def PutConn_def)

lemma run_unavailable:
  assumes "pool env (gets s) = Inl e"
  shows "run env w job f s =
           run_deferred env w job (Some e)
             (s\<lparr>gets := Suc (gets s),
                logged := logged s @ [(Critical, ''Error on getting connection in worker on start ''
                                          @ identity (process w) @ '': '' @ Error_of e)]\<rparr>)"
  using assms by (simp add: run_def GetConn_def logger_log_def worker_String_def process_String_def)

lemma run_available:
  assumes "pool env (gets s) = Inr c"
  shows "run env w job f s =
           run_deferred env w job
             (case f (Job.Queue job) (Args (Job.Payload job)) of
                Returns err \<Rightarrow> err
              | Panics r stack \<Rightarrow> Some (NewWorkerError r (strings_Split stack (CHR 0x0A))))
             ((snd (start env w c job (s\<lparr>gets := Suc (gets s)\<rparr>)))
                \<lparr>invocations := Suc (invocations s)\<rparr>)"
  using assms
  by (simp add: run_def GetConn_def PutConn_def Let_def start_frame split: outcome.splits)

lemma run_deferred_frame:
  "invocations (run_deferred env w job err s) = invocations s"
  by (cases "pool env (gets s)")
     (simp_all add: run_deferred_unavailable run_deferred_available finish_frame)

lemma run_both_available:
  assumes "pool env (gets s) = Inr c" and "pool env (Suc (gets s)) = Inr c'"
  shows "run env w job f s =
           snd (finish env w c' job
                  (case f (Job.Queue job) (Args (Job.Payload job)) of
                     Returns err \<Rightarrow> err
                   | Panics r stack \<Rightarrow> Some (NewWorkerError r (strings_Split stack (CHR 0x0A))))
                  ((snd (start env w c job (s\<lparr>gets := Suc (gets s)\<rparr>)))
                     \<lparr>invocations := Suc (invocations s), gets := Suc (Suc (gets s))\<rparr>))"
proof -
  let ?s1 = "(snd (start env w c job (s\<lparr>gets := Suc (gets s)\<rparr>)))\<lparr>invocations := Suc (invocations s)\<rparr>"
  have g: "gets ?s1 = Suc (gets s)"
    by (simp add: start_frame)
  show ?thesis
    unfolding run_available[OF assms(1)]
    using run_deferred_available[of env ?s1 c' w job] assms(2) g by simp
qed

lemma run_returns_nil:
  assumes "pool env (gets s) = Inr c" and "pool env (Suc (gets s)) = Inr c'"
      and "f (Job.Queue job) (Args (Job.Payload job)) = Returns None"
  shows "run env w job f s =
           snd (finish env w c' job None
                  ((snd (start env w c job (s\<lparr>gets := Suc (gets s)\<rparr>)))
                     \<lparr>invocations := Suc (invocations s), gets := Suc (Suc (gets s))\<rparr>))"
  using run_both_available[OF assms(1,2), of w job f] assms(3) by simp

lemma drain_registered:
  assumes "workers env (Class (Job.Payload job)) = Some f"
  shows "drain env w (job # jobs) s =
           drain env w jobs
             (logger_log Debug
                (''done: (Job{'' @ Job.Queue job @ ''} | '' @ Class (Job.Payload job)
                   @ '' | '' @ fmt_args env (Args (Job.Payload job)) @ '')'')
                (run env w job f s))"
  using assms by (simp add: Let_def)

lemma drain_unregistered_available:
  assumes "workers env (Class (Job.Payload job)) = None" and "pool env (gets s) = Inr c"
  shows "drain env w (job # jobs) s =
           drain env w jobs
             (snd (finish env w c job (Some (errorString (no_worker_text env job)))
                     (s\<lparr>logged := logged s @ [(Critical, no_worker_text env job)],
                        gets := Suc (gets s)\<rparr>)))"
  using assms by (simp add: Let_def GetConn_def PutConn_def logger_log_def errors_New_def)

lemma drain_unregistered_unavailable:
  assumes "workers env (Class (Job.Payload job)) = None" and "pool env (gets s) = Inl e"
  shows "drain env w (job # jobs) s =
           (Returned jobs,
            s\<lparr>gets := Suc (gets s),
               logged := logged s @
                 [(Critical, no_worker_text env job),
                  (Critical, ''Error on getting connection in worker '' @ identity (process w)
                               @ '': '' @ Error_of e)]\<rparr>)"
  using assms by (simp add: Let_def GetConn_def logger_log_def worker_String_def process_String_def)

lemma strings_Split_join:
  "concat (map (\<lambda>l. sep # l) (strings_Split s sep)) = sep # s"
proof (induction s)
  case Nil
  then show ?case by simp
next
  case (Cons c s)
  obtain l ls where sp: "strings_Split s sep = l # ls"
    using strings_Split_nonempty[of s sep] by (cases "strings_Split s sep") auto
  with Cons show ?case by auto
qed

lemma failures_append: "failures env (xs @ ys) = failures env xs @ failures env ys"
  by (simp add: failures_def)

lemma failures_DEL: "failures env [(''DEL'', args)] = []"
  by (simp add: failures_def split: list.splits)

lemma failures_RPUSH: "failures env [(''RPUSH'', [Namespace env @ ''failed'', v])] = [v]"
  by (simp add: failures_def)


lemma drain_not_NotStarted: "fst (drain env w jobs s) \<noteq> NotStarted"
proof (induction jobs arbitrary: s)
  case Nil
  then show ?case by simp
next
  case (Cons job jobs)
  show ?case
  proof (cases "workers env (Class (Job.Payload job))")
    case (Some f)
    show ?thesis unfolding drain_registered[OF Some] by (rule Cons.IH)
  next
    case None
    show ?thesis
    proof (cases "pool env (gets s)")
      case (Inl e)
      show ?thesis unfolding drain_unregistered_unavailable[OF None Inl] by simp
    next
      case (Inr c)
      show ?thesis unfolding drain_unregistered_available[OF None Inr] by (rule Cons.IH)
    qed
  qed
qed

lemma drain_append:
  "fst (drain env w pre s) = ChannelClosed \<Longrightarrow>
     drain env w (pre @ post) s = drain env w post (snd (drain env w pre s))"
proof (induction pre arbitrary: s)
  case Nil
  then show ?case by simp
next
  case (Cons job pre)
  show ?case
  proof (cases "workers env (Class (Job.Payload job))")
    case (Some f)
    show ?thesis
      using Cons.prems unfolding append_Cons drain_registered[OF Some] by (rule Cons.IH)
  next
    case None
    show ?thesis
    proof (cases "pool env (gets s)")
      case (Inl e)
      show ?thesis
        using Cons.prems unfolding drain_unregistered_unavailable[OF None Inl] by simp
    next
      case (Inr c)
      show ?thesis
        using Cons.prems unfolding append_Cons drain_unregistered_available[OF None Inr]
        by (rule Cons.IH)
    qed
  qed
qed

lemma drain_Returned_only:
  "fst (drain env w jobs s) = Returned rest \<Longrightarrow>
     \<exists>pre job e. jobs = pre @ job # rest \<and> workers env (Class (Job.Payload job)) = None
        \<and> fst (drain env w pre s) = ChannelClosed
        \<and> pool env (gets (snd (drain env w pre s))) = Inl e"
proof (induction jobs arbitrary: s)
  case Nil
  then show ?case by simp
next
  case (Cons job jobs)
  show ?case
  proof (cases "workers env (Class (Job.Payload job))")
    case (Some f)
    let ?s = "logger_log Debug
                (''done: (Job{'' @ Job.Queue job @ ''} | '' @ Class (Job.Payload job)
                   @ '' | '' @ fmt_args env (Args (Job.Payload job)) @ '')'')
                (run env w job f s)"
    have eq: "\<And>js. drain env w (job # js) s = drain env w js ?s"
      using Some by (rule drain_registered)
    from Cons.prems have "fst (drain env w jobs ?s) = Returned rest"
      by (simp only: eq)
    from Cons.IH[OF this] obtain pre j e where
      p: "jobs = pre @ j # rest" "workers env (Class (Job.Payload j)) = None"
         "fst (drain env w pre ?s) = ChannelClosed"
         "pool env (gets (snd (drain env w pre ?s))) = Inl e"
      by blast
    have "job # jobs = (job # pre) @ j # rest" using p(1) by simp
    moreover have "fst (drain env w (job # pre) s) = ChannelClosed" using p(3) by (simp only: eq)
    moreover have "pool env (gets (snd (drain env w (job # pre) s))) = Inl e"
      using p(4) by (simp only: eq)
    ultimately show ?thesis using p(2) by blast
  next
    case None
    show ?thesis
    proof (cases "pool env (gets s)")
      case (Inl e)
      have "rest = jobs"
        using Cons.prems by (simp only: drain_unregistered_unavailable[OF None Inl]) simp
      then have "job # jobs = [] @ job # rest" by simp
      moreover have "fst (drain env w [] s) = ChannelClosed" by simp
      moreover have "pool env (gets (snd (drain env w [] s))) = Inl e" using Inl by simp
      ultimately show ?thesis using None by blast
    next
      case (Inr c)
      let ?s = "snd (finish env w c job (Some (errorString (no_worker_text env job)))
                     (s\<lparr>logged := logged s @ [(Critical, no_worker_text env job)],
                        gets := Suc (gets s)\<rparr>))"
      have eq: "\<And>js. drain env w (job # js) s = drain env w js ?s"
        using None Inr by (rule drain_unregistered_available)
      from Cons.prems have "fst (drain env w jobs ?s) = Returned rest"
        by (simp only: eq)
      from Cons.IH[OF this] obtain pre j e where
        p: "jobs = pre @ j # rest" "workers env (Class (Job.Payload j)) = None"
           "fst (drain env w pre ?s) = ChannelClosed"
           "pool env (gets (snd (drain env w pre ?s))) = Inl e"
        by blast
      have "job # jobs = (job # pre) @ j # rest" using p(1) by simp
      moreover have "fst (drain env w (job # pre) s) = ChannelClosed" using p(3) by (simp only: eq)
      moreover have "pool env (gets (snd (drain env w (job # pre) s))) = Inl e"
        using p(4) by (simp only: eq)
      ultimately show ?thesis using p(2) by blast
    qed
  qed
qed

lemma drain_Returned_if:
  assumes "jobs = pre @ job # rest" "workers env (Class (Job.Payload job)) = None"
      and "fst (drain env w pre s) = ChannelClosed"
      and "pool env (gets (snd (drain env w pre s))) = Inl e"
  shows "fst (drain env w jobs s) = Returned rest"
proof -
  have "drain env w jobs s = drain env w (job # rest) (snd (drain env w pre s))"
    unfolding assms(1) by (rule drain_append[OF assms(3)])
  then show ?thesis
    by (simp only: drain_unregistered_unavailable[OF assms(2,4)]) simp
qed

lemma work_exit:
  "fst (work env w jobs s) =
     (case pool env (gets s) of
        Inl e \<Rightarrow> NotStarted
      | Inr c \<Rightarrow> fst (drain env w jobs
                  ((snd (on_redis (process_open env (process w) c) (s\<lparr>gets := Suc (gets s)\<rparr>)))
                     \<lparr>monitor := monitor s + 1\<rparr>)))"
  by (simp add: work_def GetConn_def PutConn_def Let_def on_redis_frame split: sum.splits prod.splits)

subsection \<open>The finish step\<close>

text \<open>
  C4. For every job and every error value, \<^verbatim>\<open>finish\<close> runs the failure report when the
  error is not nil and the success report when it is nil, then buffers the deletion of
  the heartbeat key of the worker, then flushes the connection, once: the report state
  gains one batch, made of what is buffered on the connection followed by the deletion,
  and the buffer is left empty. On success the whole outcome is the single batch of the
  two increments and the deletion. On failure the number of batches is one more than
  those sent by \<^verbatim>\<open>process.fail\<close>, which is not part of worker.go; it is exactly one when
  that method does not flush.
\<close>

theorem finish_flushes_once:
  "finish env w conn job err s =
     (let s1 = (case err of Some e \<Rightarrow> snd (fail env w conn job e s)
                          | None \<Rightarrow> snd (succeed env w conn job s))
      in (None, s1\<lparr>wire := wire s1 @ [bufs s1 conn @ [(''DEL'', [heartbeat_key env w])]],
                   bufs := (bufs s1)(conn := [])\<rparr>))
   \<and> wire (snd (finish env w conn job None s)) =
       wire s @ [bufs s conn @
                   [(''INCR'', [Namespace env @ ''stat:processed'']),
                    (''INCR'', [Namespace env @ ''stat:processed:'' @ identity (process w)]),
                    (''DEL'', [heartbeat_key env w])]]
   \<and> ((\<forall>r. snd (snd (process_fail env (process w) conn r)) = snd r) \<longrightarrow>
        length (wire (snd (finish env w conn job err s))) = Suc (length (wire s)))"
proof -
  have a: "length (wire (snd (finish env w conn job err s))) = Suc (length (wire s))"
    if h: "\<forall>r. snd (snd (process_fail env (process w) conn r)) = snd r"
  proof (cases err)
    case None
    then show ?thesis by (simp add: finish_nil)
  next
    case (Some e)
    have "wire (snd (fail env w conn job e s)) = wire s"
    proof (cases "json_Marshal_failure env (failure_record env w job e s)")
      case (Inl x)
      then show ?thesis by (simp add: fail_unmarshalled)
    next
      case (Inr buffer)
      then show ?thesis using h
        by (simp add: fail_marshalled on_redis_def split: prod.splits) (metis snd_conv)
    qed
    then show ?thesis using Some by (simp add: finish_eq Let_def)
  qed
  have b: "wire (snd (finish env w conn job None s)) =
       wire s @ [bufs s conn @
                   [(''INCR'', [Namespace env @ ''stat:processed'']),
                    (''INCR'', [Namespace env @ ''stat:processed:'' @ identity (process w)]),
                    (''DEL'', [heartbeat_key env w])]]"
    by (simp add: finish_nil)
  from a b finish_eq[of env w conn job err s] show ?thesis by blast
qed

theorem finish_flushes_once_witness:
  "(\<forall>r. snd (snd (process_fail (sample_env always Map.empty) (process sample_worker) 0 r)) = snd r)
   \<and> length (wire (snd (finish (sample_env always Map.empty) sample_worker 0 sample_job
                          (Some (errorString ''no luck'')) idle)))
       = Suc (length (wire idle))"
proof -
  have h: "\<forall>r. snd (snd (process_fail (sample_env always Map.empty) (process sample_worker) 0 r)) = snd r"
    by (simp add: sample_env_def)
  with finish_flushes_once[of "sample_env always Map.empty" sample_worker 0 sample_job
         "Some (errorString ''no luck'')" idle]
  show ?thesis by blast
qed

text \<open>
  C5. Finishing a job whose work function returned nil sends exactly one increment of
  \<^verbatim>\<open><ns>stat:processed\<close> and one of \<^verbatim>\<open><ns>stat:processed:<identity>\<close>, followed by the
  deletion of the heartbeat key, in one batch. On a store where the two keys hold
  counters (or are absent), each counter is one higher afterwards, and the heartbeat key
  \<^verbatim>\<open><ns>worker:<identity>\<close> is absent. The last part ties this to \<^verbatim>\<open>run\<close>: when the work
  function returns nil and both acquisitions of \<^verbatim>\<open>run\<close> succeed, \<^verbatim>\<open>run\<close> ends with this
  call of \<^verbatim>\<open>finish\<close>, the error being nil.
\<close>

theorem succeed_counts_once:
  assumes "counter (deliver st0 (wire s @ [bufs s conn])) (Namespace env @ ''stat:processed'') = Some n"
      and "counter (deliver st0 (wire s @ [bufs s conn]))
             (Namespace env @ ''stat:processed:'' @ identity (process w)) = Some m"
  shows "fst (finish env w conn job None s) = None
       \<and> wire (snd (finish env w conn job None s)) =
           wire s @ [bufs s conn @
                       [(''INCR'', [Namespace env @ ''stat:processed'']),
                        (''INCR'', [Namespace env @ ''stat:processed:'' @ identity (process w)]),
                        (''DEL'', [heartbeat_key env w])]]
       \<and> bufs (snd (finish env w conn job None s)) conn = []
       \<and> counter (deliver st0 (wire (snd (finish env w conn job None s))))
           (Namespace env @ ''stat:processed'') = Some (n + 1)
       \<and> counter (deliver st0 (wire (snd (finish env w conn job None s))))
           (Namespace env @ ''stat:processed:'' @ identity (process w)) = Some (m + 1)
       \<and> deliver st0 (wire (snd (finish env w conn job None s))) (heartbeat_key env w) = None
       \<and> (pool env (gets s0) = Inr c0 \<and> pool env (Suc (gets s0)) = Inr conn
            \<and> f (Job.Queue job) (Args (Job.Payload job)) = Returns None \<longrightarrow>
          run env w job f s0 =
            snd (finish env w conn job None
                   ((snd (start env w c0 job (s0\<lparr>gets := Suc (gets s0)\<rparr>)))
                      \<lparr>invocations := Suc (invocations s0), gets := Suc (Suc (gets s0))\<rparr>)))"
proof -
  let ?k1 = "Namespace env @ ''stat:processed''"
  let ?k2 = "Namespace env @ ''stat:processed:'' @ identity (process w)"
  let ?hb = "heartbeat_key env w"
  let ?st = "deliver st0 (wire s @ [bufs s conn])"
  let ?s' = "snd (finish env w conn job None s)"
  have d: "?k1 \<noteq> ?k2" "?hb \<noteq> ?k1" "?hb \<noteq> ?k2"
    by simp_all
  have r: "fst (finish env w conn job None s) = None" "bufs ?s' conn = []"
    by (simp_all add: finish_nil)
  have wr: "wire ?s' = wire s @ [bufs s conn @ [(''INCR'', [?k1]), (''INCR'', [?k2]), (''DEL'', [?hb])]]"
    by (simp add: finish_nil)
  have dl: "deliver st0 (wire ?s') = foldl exec ?st [(''INCR'', [?k1]), (''INCR'', [?k2]), (''DEL'', [?hb])]"
    by (simp only: wr deliver_snoc)
  have p1: "counter (deliver st0 (wire ?s')) ?k1 = Some (n + 1)"
    unfolding dl by (rule processed_batch(1)[OF d assms])
  have p2: "counter (deliver st0 (wire ?s')) ?k2 = Some (m + 1)"
    unfolding dl by (rule processed_batch(2)[OF d assms])
  have p3: "deliver st0 (wire ?s') ?hb = None"
    unfolding dl by (rule processed_batch(3)[OF d assms])
  have q: "pool env (gets s0) = Inr c0 \<and> pool env (Suc (gets s0)) = Inr conn
            \<and> f (Job.Queue job) (Args (Job.Payload job)) = Returns None \<longrightarrow>
          run env w job f s0 =
            snd (finish env w conn job None
                   ((snd (start env w c0 job (s0\<lparr>gets := Suc (gets s0)\<rparr>)))
                      \<lparr>invocations := Suc (invocations s0), gets := Suc (Suc (gets s0))\<rparr>))"
    using run_returns_nil[of env s0 c0 conn f job w] by blast
  from r(1) wr r(2) p1 p2 p3 q show ?thesis by (intro conjI)
qed

theorem succeed_counts_once_witness:
  "counter (deliver Map.empty (wire idle @ [bufs idle 0]))
     (Namespace (sample_env always [''Echo'' \<mapsto> echo]) @ ''stat:processed'') = Some 0
   \<and> counter (deliver Map.empty (wire idle @ [bufs idle 0]))
        (Namespace (sample_env always [''Echo'' \<mapsto> echo]) @ ''stat:processed:''
           @ identity (process sample_worker)) = Some 0
   \<and> counter (deliver Map.empty
                 (wire (snd (finish (sample_env always [''Echo'' \<mapsto> echo]) sample_worker 0
                               sample_job None idle))))
        ''resque:stat:processed'' = Some 1
   \<and> counter (deliver Map.empty
                 (wire (snd (finish (sample_env always [''Echo'' \<mapsto> echo]) sample_worker 0
                               sample_job None idle))))
        ''resque:stat:processed:w1'' = Some 1
   \<and> deliver Map.empty
         (wire (snd (finish (sample_env always [''Echo'' \<mapsto> echo]) sample_worker 0
                       sample_job None idle)))
        ''resque:worker:w1'' = None
   \<and> pool (sample_env always [''Echo'' \<mapsto> echo]) (gets idle) = Inr 0
   \<and> pool (sample_env always [''Echo'' \<mapsto> echo]) (Suc (gets idle)) = Inr 0
   \<and> echo (Job.Queue sample_job) (Args (Job.Payload sample_job)) = Returns None
   \<and> run (sample_env always [''Echo'' \<mapsto> echo]) sample_worker sample_job echo idle =
       snd (finish (sample_env always [''Echo'' \<mapsto> echo]) sample_worker 0 sample_job None
              ((snd (start (sample_env always [''Echo'' \<mapsto> echo]) sample_worker 0 sample_job
                       (idle\<lparr>gets := Suc (gets idle)\<rparr>)))
                 \<lparr>invocations := Suc (invocations idle), gets := Suc (Suc (gets idle))\<rparr>))"
proof -
  let ?E = "sample_env always [''Echo'' \<mapsto> echo]"
  have h1: "counter (deliver Map.empty (wire idle @ [bufs idle 0]))
              (Namespace ?E @ ''stat:processed'') = Some 0"
    by (simp add: idle_def deliver_def counter_def)
  have h2: "counter (deliver Map.empty (wire idle @ [bufs idle 0]))
              (Namespace ?E @ ''stat:processed:'' @ identity (process sample_worker)) = Some 0"
    by (simp add: idle_def deliver_def counter_def)
  have k: "Namespace ?E = ''resque:''" "identity (process sample_worker) = ''w1''"
    by (simp_all add: sample_env_def sample_worker_def)
  have g: "pool ?E (gets idle) = Inr 0" "pool ?E (Suc (gets idle)) = Inr 0"
    by (simp_all add: sample_env_def always_def)
  have e: "echo (Job.Queue sample_job) (Args (Job.Payload sample_job)) = Returns None"
    by (simp add: echo_def)
  note t = succeed_counts_once[OF h1 h2, where job = sample_job and f = echo and ?s0.0 = idle
             and ?c0.0 = 0]
  have c: "counter (deliver Map.empty (wire (snd (finish ?E sample_worker 0 sample_job None idle))))
             ''resque:stat:processed'' = Some 1"
          "counter (deliver Map.empty (wire (snd (finish ?E sample_worker 0 sample_job None idle))))
             ''resque:stat:processed:w1'' = Some 1"
          "deliver Map.empty (wire (snd (finish ?E sample_worker 0 sample_job None idle)))
             ''resque:worker:w1'' = None"
    using t[THEN conjunct2, THEN conjunct2, THEN conjunct2, THEN conjunct1]
          t[THEN conjunct2, THEN conjunct2, THEN conjunct2, THEN conjunct2, THEN conjunct1]
          t[THEN conjunct2, THEN conjunct2, THEN conjunct2, THEN conjunct2, THEN conjunct2,
            THEN conjunct1]
    by (simp_all add: k)
  have u: "run ?E sample_worker sample_job echo idle =
       snd (finish ?E sample_worker 0 sample_job None
              ((snd (start ?E sample_worker 0 sample_job (idle\<lparr>gets := Suc (gets idle)\<rparr>)))
                 \<lparr>invocations := Suc (invocations idle), gets := Suc (Suc (gets idle))\<rparr>))"
    using t g e by blast
  from h1 h2 c g e u show ?thesis by (intro conjI)
qed

subsection \<open>The failure report\<close>

text \<open>
  C7. For every job and every error that is not nil, \<^verbatim>\<open>fail\<close> builds a failure record
  whose exception field is the fixed text \<open>Error\<close>, whose message is the text of the
  error, and whose backtrace is that of the error when it is a \<^verbatim>\<open>*WorkerError\<close> and is
  empty otherwise. When the record is serialized, \<^verbatim>\<open>fail\<close> buffers one \<^verbatim>\<open>RPUSH\<close> of the
  serialized record on \<^verbatim>\<open><ns>failed\<close> and then hands over to \<^verbatim>\<open>process.fail\<close>. The two
  parts of the statement are the two kinds of error.
\<close>

theorem fail_appends_then_delegates:
  "(json_Marshal_failure env
      \<lparr>FailedAt = clock env (ticks s), failure.Payload = Job.Payload job,
       Exception = ''Error'', Error = m, Backtrace = bt, Worker = w,
       failure.Queue = Job.Queue job\<rparr> = Inr buffer \<longrightarrow>
    fail env w conn job (WorkerError m bt) s =
      on_redis (process_fail env (process w) conn)
        (s\<lparr>ticks := Suc (ticks s),
           bufs := (bufs s)(conn := bufs s conn @
                     [(''RPUSH'', [Namespace env @ ''failed'', buffer])])\<rparr>))
   \<and> (json_Marshal_failure env
        \<lparr>FailedAt = clock env (ticks s), failure.Payload = Job.Payload job,
         Exception = ''Error'', Error = x, Backtrace = [], Worker = w,
         failure.Queue = Job.Queue job\<rparr> = Inr buffer \<longrightarrow>
      fail env w conn job (errorString x) s =
        on_redis (process_fail env (process w) conn)
          (s\<lparr>ticks := Suc (ticks s),
             bufs := (bufs s)(conn := bufs s conn @
                       [(''RPUSH'', [Namespace env @ ''failed'', buffer])])\<rparr>))"
  using fail_marshalled[where env = env and w = w and job = job and err = "WorkerError m bt"
          and s = s and buffer = buffer and conn = conn]
        fail_marshalled[where env = env and w = w and job = job and err = "errorString x"
          and s = s and buffer = buffer and conn = conn]
  by simp

theorem fail_appends_then_delegates_witness:
  "json_Marshal_failure (sample_env always Map.empty)
     \<lparr>FailedAt = clock (sample_env always Map.empty) (ticks idle),
      failure.Payload = Job.Payload sample_job, Exception = ''Error'', Error = ''boom'',
      Backtrace = [''goroutine 1'', ''main.crash()''], Worker = sample_worker,
      failure.Queue = Job.Queue sample_job\<rparr> = Inr ''boom''
   \<and> bufs (snd (fail (sample_env always Map.empty) sample_worker 0 sample_job
        (WorkerError ''boom'' [''goroutine 1'', ''main.crash()'']) idle)) 0
       = [(''RPUSH'', [''resque:failed'', ''boom''])]
   \<and> json_Marshal_failure (sample_env always Map.empty)
     \<lparr>FailedAt = clock (sample_env always Map.empty) (ticks idle),
      failure.Payload = Job.Payload sample_job, Exception = ''Error'', Error = ''no luck'',
      Backtrace = [], Worker = sample_worker,
      failure.Queue = Job.Queue sample_job\<rparr> = Inr ''no luck''
   \<and> bufs (snd (fail (sample_env always Map.empty) sample_worker 0 sample_job
        (errorString ''no luck'') idle)) 0
       = [(''RPUSH'', [''resque:failed'', ''no luck''])]"
proof -
  let ?E = "sample_env always Map.empty"
  have h1: "json_Marshal_failure ?E
     \<lparr>FailedAt = clock ?E (ticks idle),
      failure.Payload = Job.Payload sample_job, Exception = ''Error'', Error = ''boom'',
      Backtrace = [''goroutine 1'', ''main.crash()''], Worker = sample_worker,
      failure.Queue = Job.Queue sample_job\<rparr> = Inr ''boom''"
    by (simp add: sample_env_def)
  have h2: "json_Marshal_failure ?E
     \<lparr>FailedAt = clock ?E (ticks idle),
      failure.Payload = Job.Payload sample_job, Exception = ''Error'', Error = ''no luck'',
      Backtrace = [], Worker = sample_worker,
      failure.Queue = Job.Queue sample_job\<rparr> = Inr ''no luck''"
    by (simp add: sample_env_def)
  note t1 = fail_appends_then_delegates[where env = "?E" and s = idle and job = sample_job
              and w = sample_worker and conn = 0, THEN conjunct1, rule_format, OF h1]
  note t2 = fail_appends_then_delegates[where env = "?E" and s = idle and job = sample_job
              and w = sample_worker and conn = 0, THEN conjunct2, rule_format, OF h2]
  have 1: "bufs (snd (fail ?E sample_worker 0 sample_job
        (WorkerError ''boom'' [''goroutine 1'', ''main.crash()'']) idle)) 0
       = [(''RPUSH'', [''resque:failed'', ''boom''])]"
    unfolding t1 by (simp add: sample_env_def on_redis_def idle_def)
  have 2: "bufs (snd (fail ?E sample_worker 0 sample_job (errorString ''no luck'') idle)) 0
       = [(''RPUSH'', [''resque:failed'', ''no luck''])]"
    unfolding t2 by (simp add: sample_env_def on_redis_def idle_def)
  from h1 1 h2 2 show ?thesis by (intro conjI)
qed

text \<open>
  C10. When the serialization of the failure record fails, \<^verbatim>\<open>fail\<close> returns the error
  with nothing sent and \<^verbatim>\<open>process.fail\<close> not called; \<^verbatim>\<open>finish\<close> ignores that error,
  buffers the deletion of the heartbeat key and flushes, so that the heartbeat key is
  absent from the store afterwards.
\<close>

theorem finish_after_failed_serialization:
  assumes "json_Marshal_failure env (failure_record env w job err s) = Inl e"
  shows "fail env w conn job err s = (Some e, s\<lparr>ticks := Suc (ticks s)\<rparr>)
       \<and> finish env w conn job (Some err) s =
           (None, s\<lparr>ticks := Suc (ticks s),
                    wire := wire s @ [bufs s conn @ [(''DEL'', [heartbeat_key env w])]],
                    bufs := (bufs s)(conn := [])\<rparr>)
       \<and> deliver st0 (wire (snd (finish env w conn job (Some err) s))) (heartbeat_key env w) = None"
  by (simp add: fail_unmarshalled[OF assms] finish_eq Let_def deliver_def exec_DEL)

theorem finish_after_failed_serialization_witness:
  "json_Marshal_failure (mute_env always Map.empty)
     (failure_record (mute_env always Map.empty) sample_worker sample_job (errorString ''no luck'') idle)
     = Inl (errorString ''json: unsupported value'')
   \<and> wire (snd (finish (mute_env always Map.empty) sample_worker 0 sample_job
                   (Some (errorString ''no luck'')) idle))
       = [[(''DEL'', [''resque:worker:w1''])]]"
proof -
  have h: "json_Marshal_failure (mute_env always Map.empty)
     (failure_record (mute_env always Map.empty) sample_worker sample_job (errorString ''no luck'') idle)
     = Inl (errorString ''json: unsupported value'')"
    by (simp add: mute_env_def)
  have k: "Namespace (mute_env always Map.empty) = ''resque:''"
          "identity (process sample_worker) = ''w1''"
    by (simp_all add: mute_env_def sample_env_def sample_worker_def)
  show ?thesis
    using h finish_after_failed_serialization[OF h, of 0, THEN conjunct2, THEN conjunct1]
    by (simp add: k idle_def)
qed

subsection \<open>The start report\<close>

text \<open>
  C8 as stated: \<^verbatim>\<open>start\<close> buffers the \<^verbatim>\<open>SET\<close> of the work record and leaves the flush to
  its caller. It does not hold: \<^verbatim>\<open>start\<close> ends with \<^verbatim>\<open>return conn.Flush()\<close>. On an idle
  connection the \<^verbatim>\<open>SET\<close> has been delivered when \<^verbatim>\<open>start\<close> returns, and the buffer is
  empty.
\<close>

theorem start_flushes_counterexample:
  "bufs (snd (start (sample_env always Map.empty) sample_worker 0 sample_job idle)) 0 = []
   \<and> wire (snd (start (sample_env always Map.empty) sample_worker 0 sample_job idle))
       = [[(''SET'', [''resque:worker:w1'', ''Echo''])]]
   \<and> wire (snd (start (sample_env always Map.empty) sample_worker 0 sample_job idle)) \<noteq> wire idle"
  by (simp add: start_def time_Now_def Send_def Flush_def logger_log_def sample_env_def
        sample_worker_def sample_job_def idle_def worker_String_def process_String_def)

text \<open>
  C8, amended. When the work record is serialized, \<^verbatim>\<open>start\<close> buffers a \<^verbatim>\<open>SET\<close> of the
  serialized record under the heartbeat key and then flushes the connection itself: the
  command is delivered in one batch with what was buffered before, the buffer is left
  empty, and \<^verbatim>\<open>start\<close> returns nil.
\<close>

theorem start_sets_and_flushes:
  assumes "json_Marshal_work env (work_record env job s) = Inr buffer"
  shows "fst (start env w conn job s) = None
       \<and> wire (snd (start env w conn job s)) =
           wire s @ [bufs s conn @ [(''SET'', [heartbeat_key env w, buffer])]]
       \<and> bufs (snd (start env w conn job s)) conn = []"
  by (simp add: start_marshalled[OF assms])

theorem start_sets_and_flushes_witness:
  "json_Marshal_work (sample_env always Map.empty)
     (work_record (sample_env always Map.empty) sample_job idle) = Inr ''Echo''
   \<and> wire (snd (start (sample_env always Map.empty) sample_worker 0 sample_job idle)) =
       wire idle @ [bufs idle 0 @ [(''SET'', [''resque:worker:w1'', ''Echo''])]]"
proof -
  have h: "json_Marshal_work (sample_env always Map.empty)
     (work_record (sample_env always Map.empty) sample_job idle) = Inr ''Echo''"
    by (simp add: sample_env_def sample_job_def)
  have k: "Namespace (sample_env always Map.empty) = ''resque:''"
          "identity (process sample_worker) = ''w1''"
    by (simp_all add: sample_env_def sample_worker_def)
  show ?thesis
    using h start_sets_and_flushes[OF h, of sample_worker 0, THEN conjunct2, THEN conjunct1]
    by (simp add: k)
qed

text \<open>
  C9. The key that \<^verbatim>\<open>start\<close> sets and the key that \<^verbatim>\<open>finish\<close> deletes are the same
  string, \<^verbatim>\<open><ns>worker:<identity>\<close>: \<^verbatim>\<open>start\<close> formats the worker, \<^verbatim>\<open>finish\<close> the
  \<^verbatim>\<open>String()\<close> of its embedded process, and the two render alike (worker.go gives
  \<^verbatim>\<open>*worker\<close> no \<^verbatim>\<open>String\<close> method of its own). The key of \<^verbatim>\<open>start\<close> is read off the
  command it delivers, which takes that the work record is serialized.
\<close>

theorem heartbeat_key_same:
  assumes "json_Marshal_work env (work_record env job s) = Inr buffer"
  shows "last (last (wire (snd (start env w conn job s)))) = (''SET'', [heartbeat_key env w, buffer])
       \<and> last (last (wire (snd (finish env w conn' job' err s')))) = (''DEL'', [heartbeat_key env w])
       \<and> Namespace env @ ''worker:'' @ worker_String w
           = Namespace env @ ''worker:'' @ process_String (process w)"
  by (simp add: start_marshalled[OF assms] finish_eq Let_def worker_String_def)

theorem heartbeat_key_same_witness:
  "json_Marshal_work (sample_env always Map.empty)
     (work_record (sample_env always Map.empty) sample_job idle) = Inr ''Echo''
   \<and> last (last (wire (snd (start (sample_env always Map.empty) sample_worker 0 sample_job idle))))
       = (''SET'', [''resque:worker:w1'', ''Echo''])
   \<and> last (last (wire (snd (finish (sample_env always Map.empty) sample_worker 0 sample_job None
                               (snd (start (sample_env always Map.empty) sample_worker 0 sample_job idle))))))
       = (''DEL'', [''resque:worker:w1''])"
proof -
  have h: "json_Marshal_work (sample_env always Map.empty)
     (work_record (sample_env always Map.empty) sample_job idle) = Inr ''Echo''"
    by (simp add: sample_env_def sample_job_def)
  have k: "Namespace (sample_env always Map.empty) = ''resque:''"
          "identity (process sample_worker) = ''w1''"
    by (simp_all add: sample_env_def sample_worker_def)
  note t = heartbeat_key_same[OF h, of sample_worker 0 0 sample_job None
             "snd (start (sample_env always Map.empty) sample_worker 0 sample_job idle)"]
  show ?thesis
    using h t[THEN conjunct1] t[THEN conjunct2, THEN conjunct1] by (simp add: k)
qed

subsection \<open>The worker loop\<close>

text \<open>
  C1 as stated: the loop goes on to the next job after each of the four kinds of error,
  and ends only when the channel is closed or when the connection for the announcement
  in \<^verbatim>\<open>work\<close> cannot be acquired. It does not hold: in the branch of a job with no
  registered work function, a failed \<^verbatim>\<open>GetConn\<close> is followed by \<^verbatim>\<open>return\<close> (line 128),
  which leaves the loop. Here the announcement has its connection, the first job has no
  work function, the pool then fails, and the second job stays on the channel.
\<close>

theorem loop_stops_counterexample:
  "pool (sample_env only_first Map.empty) (gets idle) = Inr 0
   \<and> fst (work (sample_env only_first Map.empty) sample_worker [sample_job, other_job] idle)
       = Returned [other_job]"
  by (simp add: work_def GetConn_def PutConn_def on_redis_def logger_log_def sample_env_def
        only_first_def idle_def Let_def)

text \<open>
  C1, amended. The loop goes on to the next job after every job with a registered work
  function, whatever \<^verbatim>\<open>run\<close> met (no connection at its start or at its finish, an error
  of the work function, a recovered panic), and after a job with no registered work
  function when the connection for its report is acquired. It ends before the channel is
  closed exactly when, at a job with no registered work function, the connection cannot
  be acquired: the jobs after that one stay on the channel. A failed acquisition for the
  announcement in \<^verbatim>\<open>work\<close> keeps the loop from starting, and nothing else does.
\<close>

theorem loop_continues_or_returns:
  "(workers env (Class (Job.Payload job)) = Some f \<longrightarrow>
      drain env w (job # jobs) s =
        drain env w jobs (logger_log Debug (done_text env job) (run env w job f s)))
   \<and> (workers env (Class (Job.Payload job)) = None \<and> pool env (gets s) = Inr c \<longrightarrow>
      drain env w (job # jobs) s =
        drain env w jobs
          (snd (finish env w c job (Some (errorString (no_worker_text env job)))
                  (s\<lparr>logged := logged s @ [(Critical, no_worker_text env job)],
                     gets := Suc (gets s)\<rparr>))))
   \<and> (fst (drain env w js s) = Returned rest \<longleftrightarrow>
        (\<exists>pre j e. js = pre @ j # rest \<and> workers env (Class (Job.Payload j)) = None
           \<and> fst (drain env w pre s) = ChannelClosed
           \<and> pool env (gets (snd (drain env w pre s))) = Inl e))
   \<and> fst (drain env w js s) \<noteq> NotStarted
   \<and> (fst (work env w js s) = NotStarted \<longleftrightarrow> (\<exists>e. pool env (gets s) = Inl e))"
proof -
  have a: "workers env (Class (Job.Payload job)) = Some f \<longrightarrow>
      drain env w (job # jobs) s =
        drain env w jobs (logger_log Debug (done_text env job) (run env w job f s))"
    using drain_registered by blast
  have b: "workers env (Class (Job.Payload job)) = None \<and> pool env (gets s) = Inr c \<longrightarrow>
      drain env w (job # jobs) s =
        drain env w jobs
          (snd (finish env w c job (Some (errorString (no_worker_text env job)))
                  (s\<lparr>logged := logged s @ [(Critical, no_worker_text env job)],
                     gets := Suc (gets s)\<rparr>)))"
    using drain_unregistered_available by blast
  have c: "fst (drain env w js s) = Returned rest \<longleftrightarrow>
        (\<exists>pre j e. js = pre @ j # rest \<and> workers env (Class (Job.Payload j)) = None
           \<and> fst (drain env w pre s) = ChannelClosed
           \<and> pool env (gets (snd (drain env w pre s))) = Inl e)"
    using drain_Returned_only[of env w js s rest] drain_Returned_if[of js _ _ rest env w s]
    by blast
  have d: "fst (drain env w js s) \<noteq> NotStarted"
    by (rule drain_not_NotStarted)
  have e: "fst (work env w js s) = NotStarted \<longleftrightarrow> (\<exists>e. pool env (gets s) = Inl e)"
    unfolding work_exit using drain_not_NotStarted
    by (cases "pool env (gets s)") auto
  from a b c d e show ?thesis by (intro conjI)
qed

theorem loop_continues_or_returns_witness:
  "workers (sample_env always [''Echo'' \<mapsto> echo]) (Class (Job.Payload sample_job)) = Some echo
   \<and> drain (sample_env always [''Echo'' \<mapsto> echo]) sample_worker [sample_job, other_job] idle =
       drain (sample_env always [''Echo'' \<mapsto> echo]) sample_worker [other_job]
         (logger_log Debug (done_text (sample_env always [''Echo'' \<mapsto> echo]) sample_job)
            (run (sample_env always [''Echo'' \<mapsto> echo]) sample_worker sample_job echo idle))
   \<and> workers (sample_env never Map.empty) (Class (Job.Payload sample_job)) = None
   \<and> pool (sample_env never Map.empty) (gets idle) = Inl (errorString ''pool exhausted'')
   \<and> fst (drain (sample_env never Map.empty) sample_worker [sample_job, other_job] idle)
       = Returned [other_job]"
proof -
  let ?E = "sample_env always [''Echo'' \<mapsto> echo]"
  let ?N = "sample_env never Map.empty"
  have h1: "workers ?E (Class (Job.Payload sample_job)) = Some echo"
    by (simp add: sample_env_def sample_job_def)
  have h2: "workers ?N (Class (Job.Payload sample_job)) = None"
    by (simp add: sample_env_def)
  have h3: "pool ?N (gets idle) = Inl (errorString ''pool exhausted'')"
    by (simp add: sample_env_def never_def)
  have h4: "\<exists>pre j e. [sample_job, other_job] = pre @ j # [other_job]
              \<and> workers ?N (Class (Job.Payload j)) = None
              \<and> fst (drain ?N sample_worker pre idle) = ChannelClosed
              \<and> pool ?N (gets (snd (drain ?N sample_worker pre idle))) = Inl e"
    using h2 h3 by (intro exI[of _ "[]"] exI[of _ sample_job] exI[of _ "errorString ''pool exhausted''"]) simp
  note t1 = loop_continues_or_returns[of ?E sample_job echo sample_worker "[other_job]" idle,
              THEN conjunct1, rule_format, OF h1]
  note t2 = loop_continues_or_returns[of ?N _ _ sample_worker _ idle _ "[sample_job, other_job]" "[other_job]",
              THEN conjunct2, THEN conjunct2, THEN conjunct1, THEN iffD2, OF h4]
  from h1 t1 h2 h3 t2 show ?thesis by (intro conjI)
qed

subsection \<open>The execution engine\<close>

text \<open>
  C2 as stated: when the connection cannot be acquired at the start of \<^verbatim>\<open>run\<close>, nothing
  is written to the store for the job. It does not hold: \<^verbatim>\<open>run\<close> returns through its
  deferred closure, which acquires a connection of its own and calls \<^verbatim>\<open>finish\<close> with the
  value of \<^verbatim>\<open>err\<close>, by then the connection error. Here the first acquisition fails and
  the second succeeds: a failure record with the text of the connection error and the
  deletion of the heartbeat key reach the store.
\<close>

theorem dropped_job_reported_counterexample:
  "pool (sample_env all_but_first Map.empty) (gets idle) = Inl (errorString ''pool exhausted'')
   \<and> wire (run (sample_env all_but_first Map.empty) sample_worker sample_job echo idle)
       = [[(''RPUSH'', [''resque:failed'', ''pool exhausted'']), (''DEL'', [''resque:worker:w1''])]]"
  by (simp add: run_def run_deferred_def finish_def fail_def GetConn_def PutConn_def Send_def
        Flush_def time_Now_def on_redis_def logger_log_def process_String_def worker_String_def
        sample_env_def sample_worker_def sample_job_def all_but_first_def idle_def Let_def)

text \<open>
  C2, amended. When the connection cannot be acquired at the start of \<^verbatim>\<open>run\<close>, a
  critical line is logged, no work function is called and no heartbeat is announced; the
  deferred closure then runs with the connection error as the error of the job. If its
  own acquisition fails too, a second critical line is logged and nothing is sent on any
  connection. If it succeeds, \<^verbatim>\<open>finish\<close> is called with the connection error, which
  reports the job as failed.
\<close>

theorem run_without_start_connection:
  assumes "pool env (gets s) = Inl e"
  shows "invocations (run env w job f s) = invocations s
       \<and> run env w job f s =
           run_deferred env w job (Some e)
             (s\<lparr>gets := Suc (gets s),
                logged := logged s @ [(Critical, start_failed_text w e)]\<rparr>)
       \<and> (\<forall>e'. pool env (Suc (gets s)) = Inl e' \<longrightarrow>
             wire (run env w job f s) = wire s \<and> bufs (run env w job f s) = bufs s
             \<and> logged (run env w job f s) =
                 logged s @ [(Critical, start_failed_text w e), (Critical, finish_failed_text w e')])
       \<and> (\<forall>c. pool env (Suc (gets s)) = Inr c \<longrightarrow>
             run env w job f s =
               snd (finish env w c job (Some e)
                      (s\<lparr>logged := logged s @ [(Critical, start_failed_text w e)],
                         gets := Suc (Suc (gets s))\<rparr>)))"
proof -
  let ?s1 = "s\<lparr>gets := Suc (gets s), logged := logged s @ [(Critical, start_failed_text w e)]\<rparr>"
  have r: "run env w job f s = run_deferred env w job (Some e) ?s1"
    using assms by (rule run_unavailable)
  have i: "invocations (run env w job f s) = invocations s"
    unfolding r by (simp add: run_deferred_frame)
  have n: "wire (run env w job f s) = wire s \<and> bufs (run env w job f s) = bufs s
             \<and> logged (run env w job f s) =
                 logged s @ [(Critical, start_failed_text w e), (Critical, finish_failed_text w e')]"
    if "pool env (Suc (gets s)) = Inl e'" for e'
    unfolding r using that by (simp add: run_deferred_unavailable)
  have y: "run env w job f s =
               snd (finish env w c job (Some e)
                      (s\<lparr>logged := logged s @ [(Critical, start_failed_text w e)],
                         gets := Suc (Suc (gets s))\<rparr>))"
    if "pool env (Suc (gets s)) = Inr c" for c
    unfolding r using that by (simp add: run_deferred_available)
  from r i n y show ?thesis by blast
qed

theorem run_without_start_connection_witness:
  "pool (sample_env all_but_first Map.empty) (gets idle) = Inl (errorString ''pool exhausted'')
   \<and> pool (sample_env all_but_first Map.empty) (Suc (gets idle)) = Inr 0
   \<and> invocations (run (sample_env all_but_first Map.empty) sample_worker sample_job echo idle)
       = invocations idle
   \<and> run (sample_env all_but_first Map.empty) sample_worker sample_job echo idle =
       snd (finish (sample_env all_but_first Map.empty) sample_worker 0 sample_job
              (Some (errorString ''pool exhausted''))
              (idle\<lparr>logged := logged idle @
                      [(Critical, start_failed_text sample_worker (errorString ''pool exhausted''))],
                    gets := Suc (Suc (gets idle))\<rparr>))
   \<and> pool (sample_env never Map.empty) (gets idle) = Inl (errorString ''pool exhausted'')
   \<and> pool (sample_env never Map.empty) (Suc (gets idle)) = Inl (errorString ''pool exhausted'')
   \<and> wire (run (sample_env never Map.empty) sample_worker sample_job echo idle) = wire idle"
proof -
  let ?A = "sample_env all_but_first Map.empty"
  let ?N = "sample_env never Map.empty"
  have a1: "pool ?A (gets idle) = Inl (errorString ''pool exhausted'')"
    by (simp add: sample_env_def all_but_first_def idle_def)
  have a2: "pool ?A (Suc (gets idle)) = Inr 0"
    by (simp add: sample_env_def all_but_first_def idle_def)
  have n1: "pool ?N (gets idle) = Inl (errorString ''pool exhausted'')"
    by (simp add: sample_env_def never_def)
  have n2: "pool ?N (Suc (gets idle)) = Inl (errorString ''pool exhausted'')"
    by (simp add: sample_env_def never_def)
  note ta = run_without_start_connection[OF a1, of sample_worker sample_job echo]
  note tn = run_without_start_connection[OF n1, of sample_worker sample_job echo]
  have 1: "invocations (run ?A sample_worker sample_job echo idle) = invocations idle"
    using ta by blast
  have 2: "run ?A sample_worker sample_job echo idle =
       snd (finish ?A sample_worker 0 sample_job (Some (errorString ''pool exhausted''))
              (idle\<lparr>logged := logged idle @
                      [(Critical, start_failed_text sample_worker (errorString ''pool exhausted''))],
                    gets := Suc (Suc (gets idle))\<rparr>))"
    using ta a2 by blast
  have 3: "wire (run ?N sample_worker sample_job echo idle) = wire idle"
    using tn n2 by blast
  from a1 a2 1 2 n1 n2 3 show ?thesis by (intro conjI)
qed

text \<open>
  C3 as stated: whenever the work function panics, \<^verbatim>\<open>finish\<close> is called with the
  \<^verbatim>\<open>*WorkerError\<close> made from the panic. It does not hold: the deferred closure calls
  \<^verbatim>\<open>finish\<close> only when it acquires a connection. Here the pool gives one connection, for
  the start report, and no other: the work function panics, and the store receives the
  heartbeat and nothing from \<^verbatim>\<open>finish\<close>; a critical line is logged instead.
\<close>

theorem panic_unreported_counterexample:
  "crash (Job.Queue sample_job) (Args (Job.Payload sample_job))
     = Panics ''boom'' (''goroutine 1'' @ [CHR 0x0A] @ ''main.crash()'')
   \<and> wire (run (sample_env only_first [''Echo'' \<mapsto> crash]) sample_worker sample_job crash idle)
       = [[(''SET'', [''resque:worker:w1'', ''Echo''])]]
   \<and> bufs (run (sample_env only_first [''Echo'' \<mapsto> crash]) sample_worker sample_job crash idle) 0 = []
   \<and> logged (run (sample_env only_first [''Echo'' \<mapsto> crash]) sample_worker sample_job crash idle)
       = [(Debug, ''Processing default since now [Echo]''),
          (Critical, ''Error on getting connection in worker on finish w1: pool exhausted'')]"
  by (simp add: run_def run_deferred_def start_def GetConn_def PutConn_def Send_def
        Flush_def time_Now_def logger_log_def process_String_def worker_String_def crash_def
        sample_env_def sample_worker_def sample_job_def only_first_def idle_def Let_def)

text \<open>
  C3, amended. When the work function panics, the panic is turned, before \<^verbatim>\<open>run\<close>
  leaves, into a \<^verbatim>\<open>*WorkerError\<close> whose message is the rendering of the recovered value
  and whose backtrace is the captured stack split at the newlines, a sequence that is
  never empty and whose lines joined by newlines give the stack back. The deferred
  closure runs with that error: it calls \<^verbatim>\<open>finish\<close> with it when it acquires a connection,
  and otherwise sends nothing. In both cases the loop goes on with the jobs that follow.
\<close>

theorem run_recovers_panic:
  assumes "pool env (gets s) = Inr c"
      and "f (Job.Queue job) (Args (Job.Payload job)) = Panics r stack"
  shows "run env w job f s =
           run_deferred env w job (Some (NewWorkerError r (strings_Split stack (CHR 0x0A))))
             ((snd (start env w c job (s\<lparr>gets := Suc (gets s)\<rparr>)))
                \<lparr>invocations := Suc (invocations s)\<rparr>)
       \<and> NewWorkerError r (strings_Split stack (CHR 0x0A))
           = WorkerError r (strings_Split stack (CHR 0x0A))
       \<and> Error_of (NewWorkerError r (strings_Split stack (CHR 0x0A))) = r
       \<and> strings_Split stack (CHR 0x0A) \<noteq> []
       \<and> concat (map (\<lambda>l. CHR 0x0A # l) (strings_Split stack (CHR 0x0A))) = CHR 0x0A # stack
       \<and> (\<forall>c'. pool env (Suc (gets s)) = Inr c' \<longrightarrow>
             run env w job f s =
               snd (finish env w c' job (Some (NewWorkerError r (strings_Split stack (CHR 0x0A))))
                      ((snd (start env w c job (s\<lparr>gets := Suc (gets s)\<rparr>)))
                         \<lparr>invocations := Suc (invocations s), gets := Suc (Suc (gets s))\<rparr>)))
       \<and> (\<forall>e. pool env (Suc (gets s)) = Inl e \<longrightarrow>
             wire (run env w job f s) = wire (snd (start env w c job (s\<lparr>gets := Suc (gets s)\<rparr>)))
             \<and> bufs (run env w job f s) = bufs (snd (start env w c job (s\<lparr>gets := Suc (gets s)\<rparr>))))
       \<and> (workers env (Class (Job.Payload job)) = Some f \<longrightarrow>
             drain env w (job # jobs) s =
               drain env w jobs (logger_log Debug (done_text env job) (run env w job f s)))"
proof -
  let ?err = "Some (NewWorkerError r (strings_Split stack (CHR 0x0A)))"
  let ?s1 = "(snd (start env w c job (s\<lparr>gets := Suc (gets s)\<rparr>)))\<lparr>invocations := Suc (invocations s)\<rparr>"
  have g: "gets ?s1 = Suc (gets s)"
    by (simp add: start_frame)
  have a: "run env w job f s = run_deferred env w job ?err ?s1"
    using run_available[OF assms(1), of w job f] assms(2) by simp
  have b: "NewWorkerError r (strings_Split stack (CHR 0x0A))
           = WorkerError r (strings_Split stack (CHR 0x0A))"
          "Error_of (NewWorkerError r (strings_Split stack (CHR 0x0A))) = r"
    by (simp_all add: NewWorkerError_def)
  have y: "run env w job f s = snd (finish env w c' job ?err (?s1\<lparr>gets := Suc (Suc (gets s))\<rparr>))"
    if "pool env (Suc (gets s)) = Inr c'" for c'
    unfolding a using that run_deferred_available[of env ?s1 c' w job ?err] g by simp
  have n: "wire (run env w job f s) = wire (snd (start env w c job (s\<lparr>gets := Suc (gets s)\<rparr>)))
             \<and> bufs (run env w job f s) = bufs (snd (start env w c job (s\<lparr>gets := Suc (gets s)\<rparr>)))"
    if "pool env (Suc (gets s)) = Inl e" for e
    unfolding a using that run_deferred_unavailable[of env ?s1 e w job ?err] g by simp
  have d: "workers env (Class (Job.Payload job)) = Some f \<longrightarrow>
             drain env w (job # jobs) s =
               drain env w jobs (logger_log Debug (done_text env job) (run env w job f s))"
    using drain_registered by blast
  from a b strings_Split_nonempty[of stack "CHR 0x0A"] strings_Split_join[of "CHR 0x0A" stack] y n d
  show ?thesis by blast
qed

theorem run_recovers_panic_witness:
  "pool (sample_env always [''Echo'' \<mapsto> crash]) (gets idle) = Inr 0
   \<and> crash (Job.Queue sample_job) (Args (Job.Payload sample_job))
       = Panics ''boom'' (''goroutine 1'' @ [CHR 0x0A] @ ''main.crash()'')
   \<and> pool (sample_env always [''Echo'' \<mapsto> crash]) (Suc (gets idle)) = Inr 0
   \<and> strings_Split (''goroutine 1'' @ [CHR 0x0A] @ ''main.crash()'') (CHR 0x0A)
       = [''goroutine 1'', ''main.crash()'']
   \<and> run (sample_env always [''Echo'' \<mapsto> crash]) sample_worker sample_job crash idle =
       snd (finish (sample_env always [''Echo'' \<mapsto> crash]) sample_worker 0 sample_job
              (Some (NewWorkerError ''boom''
                 (strings_Split (''goroutine 1'' @ [CHR 0x0A] @ ''main.crash()'') (CHR 0x0A))))
              ((snd (start (sample_env always [''Echo'' \<mapsto> crash]) sample_worker 0 sample_job
                       (idle\<lparr>gets := Suc (gets idle)\<rparr>)))
                 \<lparr>invocations := Suc (invocations idle), gets := Suc (Suc (gets idle))\<rparr>))"
proof -
  let ?E = "sample_env always [''Echo'' \<mapsto> crash]"
  have h1: "pool ?E (gets idle) = Inr 0"
    by (simp add: sample_env_def always_def)
  have h2: "crash (Job.Queue sample_job) (Args (Job.Payload sample_job))
       = Panics ''boom'' (''goroutine 1'' @ [CHR 0x0A] @ ''main.crash()'')"
    by (simp add: crash_def)
  have h3: "pool ?E (Suc (gets idle)) = Inr 0"
    by (simp add: sample_env_def always_def)
  have h4: "strings_Split (''goroutine 1'' @ [CHR 0x0A] @ ''main.crash()'') (CHR 0x0A)
       = [''goroutine 1'', ''main.crash()'']"
    by simp
  note t = run_recovers_panic[where f = crash and job = sample_job and w = sample_worker, OF h1 h2]
  have 5: "run ?E sample_worker sample_job crash idle =
       snd (finish ?E sample_worker 0 sample_job
              (Some (NewWorkerError ''boom''
                 (strings_Split (''goroutine 1'' @ [CHR 0x0A] @ ''main.crash()'') (CHR 0x0A))))
              ((snd (start ?E sample_worker 0 sample_job (idle\<lparr>gets := Suc (gets idle)\<rparr>)))
                 \<lparr>invocations := Suc (invocations idle), gets := Suc (Suc (gets idle))\<rparr>))"
    using t h3 by blast
  from h1 h2 h3 h4 5 show ?thesis by (intro conjI)
qed

subsection \<open>Jobs without a work function\<close>

lemma on_redis_redis:
  "wire (snd (on_redis m s)) = snd (snd (m (bufs s, wire s)))"
  "bufs (snd (on_redis m s)) = fst (snd (m (bufs s, wire s)))"
  by (simp_all add: on_redis_def split: prod.splits)

lemma sublist_no_worker_text:
  "sublist (Class (Job.Payload job)) (no_worker_text env job)"
  "sublist (Job.Queue job) (no_worker_text env job)"
proof -
  show "sublist (Class (Job.Payload job)) (no_worker_text env job)"
    by (rule sublist_appendI)
  have "sublist (Job.Queue job)
          ((''No worker for '' @ Class (Job.Payload job) @ '' in queue '') @ Job.Queue job
             @ ('' with args '' @ fmt_args env (Args (Job.Payload job))))"
    by (rule sublist_appendI)
  then show "sublist (Job.Queue job) (no_worker_text env job)"
    by simp
qed

lemma finish_failures:
  assumes m: "json_Marshal_failure env (failure_record env w job err s) = Inr buffer"
      and pf: "\<forall>r. failures env (concat (snd (snd (process_fail env (process w) c r)))
                                    @ fst (snd (process_fail env (process w) c r)) c)
                  = failures env (concat (snd r) @ fst r c)"
  shows "failures env (concat (wire (snd (finish env w c job (Some err) s))))
           = failures env (concat (wire s) @ bufs s c) @ [buffer]"
proof -
  let ?s' = "s\<lparr>ticks := Suc (ticks s),
               bufs := (bufs s)(c := bufs s c @ [(''RPUSH'', [Namespace env @ ''failed'', buffer])])\<rparr>"
  let ?sf = "snd (fail env w c job err s)"
  have f: "?sf = snd (on_redis (process_fail env (process w) c) ?s')"
    by (simp only: fail_marshalled[OF m])
  have "failures env (concat (wire ?sf) @ bufs ?sf c)
          = failures env (concat (wire ?s') @ bufs ?s' c)"
    unfolding f on_redis_redis using pf[rule_format, of "(bufs ?s', wire ?s')"] by simp
  also have "\<dots> = failures env (concat (wire s) @ bufs s c) @ [buffer]"
    by (simp add: failures_append failures_RPUSH)
  finally have k: "failures env (concat (wire ?sf) @ bufs ?sf c)
          = failures env (concat (wire s) @ bufs s c) @ [buffer]" .
  have "concat (wire (snd (finish env w c job (Some err) s)))
          = (concat (wire ?sf) @ bufs ?sf c) @ [(''DEL'', [heartbeat_key env w])]"
    by (simp add: finish_eq Let_def)
  then show ?thesis
    by (simp only: failures_append[of env "concat (wire ?sf) @ bufs ?sf c"] failures_DEL k append_Nil2)
qed

text \<open>
  C6 as stated: for every job whose work type has no entry in the registry, exactly one
  failure record is appended to the failure list. It does not hold: the record is sent
  only when a connection is acquired for it. Here the pool gives no connection: no work
  function is called, and nothing is sent, so that no record is appended.
\<close>

theorem unregistered_unreported_counterexample:
  "workers (sample_env never Map.empty) (Class (Job.Payload sample_job)) = None
   \<and> invocations (snd (drain (sample_env never Map.empty) sample_worker [sample_job] idle)) = 0
   \<and> wire (snd (drain (sample_env never Map.empty) sample_worker [sample_job] idle)) = []
   \<and> bufs (snd (drain (sample_env never Map.empty) sample_worker [sample_job] idle)) = (\<lambda>c. [])
   \<and> failures (sample_env never Map.empty)
         (concat (wire (snd (drain (sample_env never Map.empty) sample_worker [sample_job] idle))))
       = []"
  by (simp add: GetConn_def logger_log_def sample_env_def never_def idle_def failures_def Let_def)

text \<open>
  C6, amended. For a job whose work type has no entry in the registry no work function
  is called, and the text of the error contains the work type and the queue name. When
  a connection is acquired, \<^verbatim>\<open>finish\<close> is called with that error and the loop goes on;
  when moreover the failure record is serialized, and \<^verbatim>\<open>process.fail\<close> appends nothing to
  the failure list itself, the commands delivered append exactly one record to the failure
  list, the serialized record with that text as its message. When no connection is
  acquired, nothing is sent and the loop ends.
\<close>

theorem unregistered_job_reported:
  assumes "workers env (Class (Job.Payload job)) = None"
  shows "sublist (Class (Job.Payload job)) (no_worker_text env job)
       \<and> sublist (Job.Queue job) (no_worker_text env job)
       \<and> (\<forall>c. pool env (gets s) = Inr c \<longrightarrow>
             drain env w (job # jobs) s =
               drain env w jobs
                 (snd (finish env w c job (Some (errorString (no_worker_text env job)))
                         (s\<lparr>logged := logged s @ [(Critical, no_worker_text env job)],
                            gets := Suc (gets s)\<rparr>)))
             \<and> invocations
                 (snd (finish env w c job (Some (errorString (no_worker_text env job)))
                         (s\<lparr>logged := logged s @ [(Critical, no_worker_text env job)],
                            gets := Suc (gets s)\<rparr>))) = invocations s)
       \<and> (\<forall>c buffer. pool env (gets s) = Inr c
             \<and> json_Marshal_failure env
                   (failure_record env w job (errorString (no_worker_text env job)) s) = Inr buffer
             \<and> (\<forall>r. failures env (concat (snd (snd (process_fail env (process w) c r)))
                                      @ fst (snd (process_fail env (process w) c r)) c)
                        = failures env (concat (snd r) @ fst r c)) \<longrightarrow>
             Error (failure_record env w job (errorString (no_worker_text env job)) s)
               = no_worker_text env job
             \<and> failures env
                 (concat (wire
                    (snd (finish env w c job (Some (errorString (no_worker_text env job)))
                            (s\<lparr>logged := logged s @ [(Critical, no_worker_text env job)],
                               gets := Suc (gets s)\<rparr>)))))
               = failures env (concat (wire s) @ bufs s c) @ [buffer])
       \<and> (\<forall>e. pool env (gets s) = Inl e \<longrightarrow>
             fst (drain env w (job # jobs) s) = Returned jobs
             \<and> invocations (snd (drain env w (job # jobs) s)) = invocations s
             \<and> wire (snd (drain env w (job # jobs) s)) = wire s
             \<and> bufs (snd (drain env w (job # jobs) s)) = bufs s)"
proof -
  let ?s1 = "s\<lparr>logged := logged s @ [(Critical, no_worker_text env job)], gets := Suc (gets s)\<rparr>"
  let ?err = "errorString (no_worker_text env job)"
  have a: "drain env w (job # jobs) s = drain env w jobs (snd (finish env w c job (Some ?err) ?s1))
           \<and> invocations (snd (finish env w c job (Some ?err) ?s1)) = invocations s"
    if "pool env (gets s) = Inr c" for c
    using drain_unregistered_available[OF assms that] by (simp add: finish_frame)
  have b: "Error (failure_record env w job ?err s) = no_worker_text env job
           \<and> failures env (concat (wire (snd (finish env w c job (Some ?err) ?s1))))
               = failures env (concat (wire s) @ bufs s c) @ [buffer]"
    if h: "pool env (gets s) = Inr c
           \<and> json_Marshal_failure env (failure_record env w job ?err s) = Inr buffer
           \<and> (\<forall>r. failures env (concat (snd (snd (process_fail env (process w) c r)))
                                      @ fst (snd (process_fail env (process w) c r)) c)
                        = failures env (concat (snd r) @ fst r c))" for c buffer
  proof -
    have m: "json_Marshal_failure env (failure_record env w job ?err ?s1) = Inr buffer"
      using h by simp
    have "failures env (concat (wire (snd (finish env w c job (Some ?err) ?s1))))
            = failures env (concat (wire ?s1) @ bufs ?s1 c) @ [buffer]"
      using h by (intro finish_failures[OF m]) blast
    then show ?thesis by simp
  qed
  have c: "fst (drain env w (job # jobs) s) = Returned jobs
             \<and> invocations (snd (drain env w (job # jobs) s)) = invocations s
             \<and> wire (snd (drain env w (job # jobs) s)) = wire s
             \<and> bufs (snd (drain env w (job # jobs) s)) = bufs s"
    if "pool env (gets s) = Inl e" for e
    unfolding drain_unregistered_unavailable[OF assms that] by simp
  from sublist_no_worker_text[of job env] a b c show ?thesis by blast
qed

theorem unregistered_job_reported_witness:
  "workers (sample_env always Map.empty) (Class (Job.Payload sample_job)) = None
   \<and> pool (sample_env always Map.empty) (gets idle) = Inr 0
   \<and> json_Marshal_failure (sample_env always Map.empty)
         (failure_record (sample_env always Map.empty) sample_worker sample_job
            (errorString (no_worker_text (sample_env always Map.empty) sample_job)) idle)
       = Inr ''No worker for Echo in queue default with args hi''
   \<and> (\<forall>r. failures (sample_env always Map.empty)
              (concat (snd (snd (process_fail (sample_env always Map.empty) (process sample_worker) 0 r)))
                 @ fst (snd (process_fail (sample_env always Map.empty) (process sample_worker) 0 r)) 0)
            = failures (sample_env always Map.empty) (concat (snd r) @ fst r 0))
   \<and> failures (sample_env always Map.empty)
         (concat (wire (snd (drain (sample_env always Map.empty) sample_worker [sample_job] idle))))
       = [''No worker for Echo in queue default with args hi'']
   \<and> sublist ''Echo'' ''No worker for Echo in queue default with args hi''
   \<and> sublist ''default'' ''No worker for Echo in queue default with args hi''"
proof -
  let ?E = "sample_env always Map.empty"
  let ?s1 = "idle\<lparr>logged := logged idle @ [(Critical, no_worker_text ?E sample_job)],
                  gets := Suc (gets idle)\<rparr>"
  have t: "no_worker_text ?E sample_job = ''No worker for Echo in queue default with args hi''"
    by (simp add: sample_env_def sample_job_def)
  have h1: "workers ?E (Class (Job.Payload sample_job)) = None"
    by (simp add: sample_env_def)
  have h2: "pool ?E (gets idle) = Inr 0"
    by (simp add: sample_env_def always_def)
  have h3: "json_Marshal_failure ?E
         (failure_record ?E sample_worker sample_job (errorString (no_worker_text ?E sample_job)) idle)
       = Inr ''No worker for Echo in queue default with args hi''"
    by (simp add: sample_env_def sample_job_def)
  have h4: "\<forall>r. failures ?E
              (concat (snd (snd (process_fail ?E (process sample_worker) 0 r)))
                 @ fst (snd (process_fail ?E (process sample_worker) 0 r)) 0)
            = failures ?E (concat (snd r) @ fst r 0)"
    by (simp add: sample_env_def)
  note u = unregistered_job_reported[OF h1, of idle sample_worker "[]"]
  have d: "drain ?E sample_worker [sample_job] idle
             = drain ?E sample_worker []
                 (snd (finish ?E sample_worker 0 sample_job
                         (Some (errorString (no_worker_text ?E sample_job))) ?s1))"
    using u h2 by blast
  have f: "failures ?E
             (concat (wire (snd (finish ?E sample_worker 0 sample_job
                                   (Some (errorString (no_worker_text ?E sample_job))) ?s1))))
           = failures ?E (concat (wire idle) @ bufs idle 0)
               @ [''No worker for Echo in queue default with args hi'']"
    using u h2 h3 h4 by blast
  have 5: "failures ?E (concat (wire (snd (drain ?E sample_worker [sample_job] idle))))
             = [''No worker for Echo in queue default with args hi'']"
    unfolding d using f by (simp add: idle_def failures_def)
  have 6: "sublist ''Echo'' ''No worker for Echo in queue default with args hi''"
          "sublist ''default'' ''No worker for Echo in queue default with args hi''"
    using u[THEN conjunct1] u[THEN conjunct2, THEN conjunct1]
    unfolding t by (simp_all add: sample_job_def)
  from h1 h2 h3 h4 5 6 show ?thesis by (intro conjI)
qed

end
